theory Spec2Isabelle
  imports Main "HOL-Library.AList" "HOL-Library.Sublist" "HOL-Library.Multiset"
begin

section \<open>JavaScript values\<close>

text \<open>
  Record values are typed \<^verbatim>\<open>any\<close> in \<^verbatim>\<open>GridDataManager.ts\<close>. The model covers the
  scalar values a record holds: \<^verbatim>\<open>undefined\<close>, \<^verbatim>\<open>null\<close>, booleans, numbers and
  strings. A number is \<^verbatim>\<open>NaN\<close>, an infinity, or an integer (the integers up to
  \<open>2 ^ 53\<close> are exact doubles, and the sign of a difference of two doubles is the sign
  of the exact difference). Fractions and rounding are outside the model. A string is a
  list of characters; case conversion is modelled on ASCII letters.
\<close>

datatype jsnum = NaN | NInf | Num int | PInf

datatype jsval = JUndefined | JNull | JBool bool | JNum jsnum | JStr string

type_synonym RowId = string

text \<open>\<^verbatim>\<open>Record<string, any>\<close>: reading a property that is absent yields \<^verbatim>\<open>undefined\<close>.\<close>

type_synonym RowData = "string \<rightharpoonup> jsval"

definition get_prop :: "RowData \<Rightarrow> string \<Rightarrow> jsval" where
  "get_prop row c = (case row c of None \<Rightarrow> JUndefined | Some v \<Rightarrow> v)"

datatype SortDirection = Asc | Desc | NoSort

datatype Operator = OpEq | OpNeq | OpGt | OpLt | OpContains | OpStarts | OpEnds

record FilterConfig =
  f_column :: string
  f_value :: jsval
  f_operator :: Operator

datatype error = TypeError

subsection \<open>Functions of the host\<close>

text \<open>
  Three functions of the JavaScript host are parameters of the model:
  \<^verbatim>\<open>String.prototype.localeCompare\<close> (the sign of its result is what the code uses),
  \<^verbatim>\<open>Date.parse\<close> on strings, and the conversion of a string to a number that
  \<^verbatim>\<open>Number(s)\<close> and the relational operators perform.
\<close>

record host =
  localeCompare :: "string \<Rightarrow> string \<Rightarrow> int"
  dateParse :: "string \<Rightarrow> jsnum"
  stringToNumber :: "string \<Rightarrow> jsnum"

subsection \<open>Conversions and operators\<close>

definition digit_char :: "nat \<Rightarrow> char" where
  "digit_char d = char_of (48 + d)"

fun digits :: "nat \<Rightarrow> string" where
  "digits n = (if n < 10 then [digit_char n] else digits (n div 10) @ [digit_char (n mod 10)])"

declare digits.simps [simp del]

text \<open>\<^verbatim>\<open>String(n)\<close> for a number (decimal notation, as JavaScript prints integers below \<open>10 ^ 21\<close>).\<close>

definition numberToString :: "jsnum \<Rightarrow> string" where
  "numberToString x = (case x of
      NaN \<Rightarrow> ''NaN''
    | PInf \<Rightarrow> ''Infinity''
    | NInf \<Rightarrow> ''-Infinity''
    | Num n \<Rightarrow> (if n < 0 then CHR ''-'' # digits (nat (- n)) else digits (nat n)))"

text \<open>\<^verbatim>\<open>String(v)\<close>.\<close>

definition String :: "jsval \<Rightarrow> string" where
  "String v = (case v of
      JUndefined \<Rightarrow> ''undefined''
    | JNull \<Rightarrow> ''null''
    | JBool b \<Rightarrow> (if b then ''true'' else ''false'')
    | JNum x \<Rightarrow> numberToString x
    | JStr s \<Rightarrow> s)"

text \<open>\<^verbatim>\<open>typeof v === 'number'\<close>, and the number that such a value is.\<close>

definition typeof_number :: "jsval \<Rightarrow> bool" where
  "typeof_number v = (case v of JNum x \<Rightarrow> True | _ \<Rightarrow> False)"

definition number_of :: "jsval \<Rightarrow> jsnum" where
  "number_of v = (case v of JNum x \<Rightarrow> x | _ \<Rightarrow> NaN)"

text \<open>\<^verbatim>\<open>Number(v)\<close>.\<close>

definition Number :: "host \<Rightarrow> jsval \<Rightarrow> jsnum" where
  "Number h v = (case v of
      JUndefined \<Rightarrow> NaN
    | JNull \<Rightarrow> Num 0
    | JBool b \<Rightarrow> (if b then Num 1 else Num 0)
    | JNum x \<Rightarrow> x
    | JStr s \<Rightarrow> stringToNumber h s)"

definition isNaN :: "jsnum \<Rightarrow> bool" where
  "isNaN x = (x = NaN)"

text \<open>Truthiness, as \<^verbatim>\<open>if (v)\<close> and \<^verbatim>\<open>v || ''\<close> test it.\<close>

definition truthy :: "jsval \<Rightarrow> bool" where
  "truthy v = (case v of
      JUndefined \<Rightarrow> False
    | JNull \<Rightarrow> False
    | JBool b \<Rightarrow> b
    | JNum x \<Rightarrow> (case x of NaN \<Rightarrow> False | Num n \<Rightarrow> n \<noteq> 0 | _ \<Rightarrow> True)
    | JStr s \<Rightarrow> s \<noteq> [])"

text \<open>\<^verbatim>\<open>v || ''\<close>.\<close>

definition or_empty :: "jsval \<Rightarrow> jsval" where
  "or_empty v = (if truthy v then v else JStr [])"

text \<open>\<^verbatim>\<open>a - b\<close> on numbers.\<close>

definition js_sub :: "jsnum \<Rightarrow> jsnum \<Rightarrow> jsnum" where
  "js_sub a b = (case (a, b) of
      (NaN, _) \<Rightarrow> NaN
    | (_, NaN) \<Rightarrow> NaN
    | (Num x, Num y) \<Rightarrow> Num (x - y)
    | (PInf, PInf) \<Rightarrow> NaN
    | (NInf, NInf) \<Rightarrow> NaN
    | (PInf, _) \<Rightarrow> PInf
    | (_, NInf) \<Rightarrow> PInf
    | (NInf, _) \<Rightarrow> NInf
    | (_, PInf) \<Rightarrow> NInf)"

text \<open>\<^verbatim>\<open>a < b\<close> on numbers: false when either is \<^verbatim>\<open>NaN\<close>.\<close>

definition num_less :: "jsnum \<Rightarrow> jsnum \<Rightarrow> bool" where
  "num_less a b = (case (a, b) of
      (NaN, _) \<Rightarrow> False
    | (_, NaN) \<Rightarrow> False
    | (Num x, Num y) \<Rightarrow> x < y
    | (NInf, NInf) \<Rightarrow> False
    | (NInf, _) \<Rightarrow> True
    | (PInf, _) \<Rightarrow> False
    | (_, PInf) \<Rightarrow> True
    | (_, NInf) \<Rightarrow> False)"

text \<open>
  \<^verbatim>\<open>new Date(v).getTime()\<close>: a string is parsed by the host, any other value is converted
  to a number and clipped to the range of time values.
\<close>

definition timeClip :: "jsnum \<Rightarrow> jsnum" where
  "timeClip x = (case x of Num n \<Rightarrow> (if \<bar>n\<bar> \<le> 8640000000000000 then Num n else NaN) | _ \<Rightarrow> NaN)"

definition Date_getTime :: "host \<Rightarrow> jsval \<Rightarrow> jsnum" where
  "Date_getTime h v = (case v of JStr s \<Rightarrow> dateParse h s | _ \<Rightarrow> timeClip (Number h v))"

definition toLowerChar :: "char \<Rightarrow> char" where
  "toLowerChar c = (let n = of_char c :: nat in if 65 \<le> n \<and> n \<le> 90 then char_of (n + 32) else c)"

definition toLowerCase :: "string \<Rightarrow> string" where
  "toLowerCase s = map toLowerChar s"

text \<open>\<^verbatim>\<open>s.includes(q)\<close>, \<^verbatim>\<open>s.startsWith(q)\<close>, \<^verbatim>\<open>s.endsWith(q)\<close>.\<close>

definition str_includes :: "string \<Rightarrow> string \<Rightarrow> bool" where
  "str_includes s q = sublist q s"

definition startsWith :: "string \<Rightarrow> string \<Rightarrow> bool" where
  "startsWith s q = prefix q s"

definition endsWith :: "string \<Rightarrow> string \<Rightarrow> bool" where
  "endsWith s q = suffix q s"

text \<open>\<^verbatim>\<open>parts.join(' ')\<close>.\<close>

fun join :: "string list \<Rightarrow> string" where
  "join [] = []"
| "join [s] = s"
| "join (s # t # ts) = s @ CHR '' '' # join (t # ts)"

text \<open>Strict equality \<^verbatim>\<open>a === b\<close>: \<^verbatim>\<open>NaN\<close> equals nothing.\<close>

definition strict_eq :: "jsval \<Rightarrow> jsval \<Rightarrow> bool" where
  "strict_eq a b = (a = b \<and> a \<noteq> JNum NaN)"

text \<open>
  \<^verbatim>\<open>a < b\<close> on values: two strings compare by code units, anything else as numbers.
\<close>

fun str_less :: "string \<Rightarrow> string \<Rightarrow> bool" where
  "str_less [] [] = False"
| "str_less [] (y # ys) = True"
| "str_less (x # xs) [] = False"
| "str_less (x # xs) (y # ys) =
     ((of_char x :: nat) < of_char y \<or> (x = y \<and> str_less xs ys))"

definition js_less :: "host \<Rightarrow> jsval \<Rightarrow> jsval \<Rightarrow> bool" where
  "js_less h a b = (case (a, b) of
      (JStr s, JStr t) \<Rightarrow> str_less s t
    | _ \<Rightarrow> num_less (Number h a) (Number h b))"

section \<open>The row store and its indices\<close>

definition DATE_COLUMNS :: "string list" where
  "DATE_COLUMNS = [''createdAt'', ''updatedAt'', ''date'']"

definition SEARCHABLE_COLUMNS :: "string list" where
  "SEARCHABLE_COLUMNS = [''name'', ''description'', ''email'', ''notes'', ''title'']"

definition NUMERIC_COLUMNS :: "string list" where
  "NUMERIC_COLUMNS = [''id'', ''amount'', ''price'', ''quantity'']"

record CurrentSort =
  cs_column :: "string option"
  cs_direction :: SortDirection

text \<open>
  A JavaScript \<^verbatim>\<open>Map\<close> keeps its entries in insertion order: it is an association
  list with one entry for each key. \<^verbatim>\<open>set\<close> replaces the value of a key that is present
  and appends a new key, \<^verbatim>\<open>delete\<close> removes the key.
\<close>

type_synonym ('k, 'v) js_map = "('k \<times> 'v) list"

abbreviation Map_get :: "('k, 'v) js_map \<Rightarrow> 'k \<Rightarrow> 'v option" where
  "Map_get m k \<equiv> map_of m k"

abbreviation Map_has :: "('k, 'v) js_map \<Rightarrow> 'k \<Rightarrow> bool" where
  "Map_has m k \<equiv> map_of m k \<noteq> None"

abbreviation Map_set :: "('k, 'v) js_map \<Rightarrow> 'k \<Rightarrow> 'v \<Rightarrow> ('k, 'v) js_map" where
  "Map_set m k v \<equiv> AList.update k v m"

abbreviation Map_delete :: "('k, 'v) js_map \<Rightarrow> 'k \<Rightarrow> ('k, 'v) js_map" where
  "Map_delete m k \<equiv> AList.delete k m"

text \<open>The fields of class \<^verbatim>\<open>GridDataManager\<close>.\<close>

record GridDataManager =
  rowMap :: "(RowId, RowData) js_map"
  displayIndex :: "RowId list"
  filteredIndex :: "RowId list"
  searchIndex :: "(RowId, string) js_map"
  sortValues :: "(string, (RowId, jsnum) js_map) js_map"
  activeFilters :: "FilterConfig list"
  currentSort :: CurrentSort
  idField :: string

text \<open>What \<^verbatim>\<open>getCurrentState\<close> returns.\<close>

record Snapshot =
  st_filteredRows :: "RowData option list"
  st_totalRows :: nat
  st_filteredCount :: nat
  st_currentSort :: CurrentSort
  st_activeFilters :: "FilterConfig list"

definition getCurrentState :: "GridDataManager \<Rightarrow> Snapshot" where
  "getCurrentState s =
     \<lparr> st_filteredRows = map (Map_get (rowMap s)) (filteredIndex s),
       st_totalRows = length (rowMap s),
       st_filteredCount = length (filteredIndex s),
       st_currentSort = currentSort s,
       st_activeFilters = activeFilters s \<rparr>"

subsection \<open>Caches\<close>

text \<open>\<^verbatim>\<open>if (!this.sortValues.has(colName)) this.sortValues.set(colName, new Map())\<close>.\<close>

definition ensure_map ::
  "(string, (RowId, jsnum) js_map) js_map \<Rightarrow> string \<Rightarrow> (string, (RowId, jsnum) js_map) js_map" where
  "ensure_map sv c = (if \<not> Map_has sv c then Map_set sv c [] else sv)"

text \<open>
  \<^verbatim>\<open>this.sortValues.get(colName)!.set(id, x)\<close>; every call site has made sure that the
  column's map exists.
\<close>

definition set_sort_value ::
  "(string, (RowId, jsnum) js_map) js_map \<Rightarrow> string \<Rightarrow> RowId \<Rightarrow> jsnum \<Rightarrow> (string, (RowId, jsnum) js_map) js_map" where
  "set_sort_value sv c i x =
     (case Map_get sv c of None \<Rightarrow> sv | Some m \<Rightarrow> Map_set sv c (Map_set m i x))"

definition precompute_date ::
  "host \<Rightarrow> RowId \<Rightarrow> RowData \<Rightarrow> (string, (RowId, jsnum) js_map) js_map \<Rightarrow> string \<Rightarrow> (string, (RowId, jsnum) js_map) js_map" where
  "precompute_date h i row sv colName =
     (let sv1 = ensure_map sv colName in
      if truthy (get_prop row colName)
      then set_sort_value sv1 colName i (Date_getTime h (get_prop row colName))
      else sv1)"

definition precompute_numeric ::
  "host \<Rightarrow> RowId \<Rightarrow> RowData \<Rightarrow> (string, (RowId, jsnum) js_map) js_map \<Rightarrow> string \<Rightarrow> (string, (RowId, jsnum) js_map) js_map" where
  "precompute_numeric h i row sv colName =
     (let sv1 = ensure_map sv colName; v = get_prop row colName in
      if v \<noteq> JUndefined \<and> v \<noteq> JNull
      then (let numValue = (if typeof_number v then number_of v else Number h v) in
            if \<not> isNaN numValue then set_sort_value sv1 colName i numValue else sv1)
      else sv1)"

definition precomputeSortValues ::
  "host \<Rightarrow> GridDataManager \<Rightarrow> RowId \<Rightarrow> RowData \<Rightarrow> GridDataManager" where
  "precomputeSortValues h s i row =
     s\<lparr>sortValues :=
         foldl (precompute_numeric h i row)
           (foldl (precompute_date h i row) (sortValues s) DATE_COLUMNS)
           NUMERIC_COLUMNS\<rparr>"

definition buildSearchString :: "RowData \<Rightarrow> string" where
  "buildSearchString row =
     join (map (\<lambda>col. toLowerCase (String (or_empty (get_prop row col)))) SEARCHABLE_COLUMNS)"

subsection \<open>Construction\<close>

definition empty_manager :: "string \<Rightarrow> GridDataManager" where
  "empty_manager uniqueIdField =
     \<lparr> rowMap = [], displayIndex = [], filteredIndex = [], searchIndex = [],
       sortValues = [], activeFilters = [],
       currentSort = \<lparr> cs_column = None, cs_direction = NoSort \<rparr>,
       idField = uniqueIdField \<rparr>"

text \<open>The body of \<^verbatim>\<open>rows.forEach\<close> in the constructor.\<close>

definition init_row :: "host \<Rightarrow> GridDataManager \<Rightarrow> RowData \<Rightarrow> GridDataManager" where
  "init_row h s row =
     (let i = String (get_prop row (idField s)) in
      precomputeSortValues h
        (s\<lparr>rowMap := Map_set (rowMap s) i row,
           displayIndex := displayIndex s @ [i],
           searchIndex := Map_set (searchIndex s) i (buildSearchString row)\<rparr>) i row)"

definition new_GridDataManager :: "host \<Rightarrow> RowData list \<Rightarrow> string \<Rightarrow> GridDataManager" where
  "new_GridDataManager h rows uniqueIdField =
     (let s = foldl (init_row h) (empty_manager uniqueIdField) rows in
      s\<lparr>filteredIndex := displayIndex s\<rparr>)"

subsection \<open>Sorting an array with a comparator\<close>

text \<open>
  \<^verbatim>\<open>Array.prototype.sort\<close> is stable, and moves \<open>a\<close> after \<open>b\<close> only when the
  comparator's result is positive (\<^verbatim>\<open>NaN\<close> counts as zero). For a consistent comparator
  the result is the one stable sorted arrangement, which insertion computes. An exception
  in the comparator leaves the sort.
\<close>

definition positive :: "jsnum \<Rightarrow> bool" where
  "positive v = (case v of Num n \<Rightarrow> 0 < n | PInf \<Rightarrow> True | _ \<Rightarrow> False)"

fun insert_by :: "('a \<Rightarrow> 'a \<Rightarrow> error + jsnum) \<Rightarrow> 'a \<Rightarrow> 'a list \<Rightarrow> error + 'a list" where
  "insert_by c x [] = Inr [x]"
| "insert_by c x (y # ys) =
     (case c x y of
        Inl e \<Rightarrow> Inl e
      | Inr v \<Rightarrow>
          if positive v
          then (case insert_by c x ys of Inl e \<Rightarrow> Inl e | Inr zs \<Rightarrow> Inr (y # zs))
          else Inr (x # y # ys))"

fun array_sort :: "('a \<Rightarrow> 'a \<Rightarrow> error + jsnum) \<Rightarrow> 'a list \<Rightarrow> error + 'a list" where
  "array_sort c [] = Inr []"
| "array_sort c (x # xs) =
     (case array_sort c xs of Inl e \<Rightarrow> Inl e | Inr ys \<Rightarrow> insert_by c x ys)"

text \<open>The comparator of \<^verbatim>\<open>sortBy\<close> for direction \<^verbatim>\<open>'none'\<close>.\<close>

definition compare_none :: "host \<Rightarrow> GridDataManager \<Rightarrow> RowId \<Rightarrow> RowId \<Rightarrow> error + jsnum" where
  "compare_none h s idA idB =
     (case Map_get (rowMap s) idA of
        None \<Rightarrow> Inl TypeError
      | Some rowA \<Rightarrow>
          (case Map_get (rowMap s) idB of
             None \<Rightarrow> Inl TypeError
           | Some rowB \<Rightarrow>
               Inr (Num (localeCompare h (String (get_prop rowA (idField s)))
                                         (String (get_prop rowB (idField s)))))))"

text \<open>The comparator of \<^verbatim>\<open>sortBy\<close> for the other directions.\<close>

definition compare_column ::
  "host \<Rightarrow> GridDataManager \<Rightarrow> string \<Rightarrow> SortDirection \<Rightarrow> RowId \<Rightarrow> RowId \<Rightarrow> error + jsnum" where
  "compare_column h s column direction idA idB =
     (case Map_get (sortValues s) column of
        Some m \<Rightarrow>
          (let valueA = (case Map_get m idA of None \<Rightarrow> Num 0 | Some v \<Rightarrow> v);
               valueB = (case Map_get m idB of None \<Rightarrow> Num 0 | Some v \<Rightarrow> v)
           in Inr (if direction = Asc then js_sub valueA valueB else js_sub valueB valueA))
      | None \<Rightarrow>
          (case Map_get (rowMap s) idA of
             None \<Rightarrow> Inl TypeError
           | Some rowA \<Rightarrow>
               (case Map_get (rowMap s) idB of
                  None \<Rightarrow> Inl TypeError
                | Some rowB \<Rightarrow>
                    (let valueA = get_prop rowA column; valueB = get_prop rowB column in
                     if typeof_number valueA \<and> typeof_number valueB
                     then Inr (if direction = Asc
                               then js_sub (number_of valueA) (number_of valueB)
                               else js_sub (number_of valueB) (number_of valueA))
                     else
                       (let strA = String (or_empty valueA);
                            strB = String (or_empty valueB);
                            result = localeCompare h strA strB
                        in Inr (Num (if direction = Asc then result else - result)))))))"

subsection \<open>Filtering\<close>

text \<open>The \<^verbatim>\<open>switch\<close> of \<^verbatim>\<open>applyCurrentFilters\<close> on one row.\<close>

definition passes :: "host \<Rightarrow> FilterConfig \<Rightarrow> RowData \<Rightarrow> bool" where
  "passes h f row =
     (let v = get_prop row (f_column f) in
      case f_operator f of
        OpEq \<Rightarrow> strict_eq v (f_value f)
      | OpNeq \<Rightarrow> \<not> strict_eq v (f_value f)
      | OpGt \<Rightarrow> js_less h (f_value f) v
      | OpLt \<Rightarrow> js_less h v (f_value f)
      | OpContains \<Rightarrow> str_includes (toLowerCase (String v)) (toLowerCase (String (f_value f)))
      | OpStarts \<Rightarrow> startsWith (toLowerCase (String v)) (toLowerCase (String (f_value f)))
      | OpEnds \<Rightarrow> endsWith (toLowerCase (String v)) (toLowerCase (String (f_value f))))"

text \<open>\<^verbatim>\<open>Array.prototype.filter\<close> with a callback that may throw.\<close>

fun array_filter :: "('a \<Rightarrow> error + bool) \<Rightarrow> 'a list \<Rightarrow> error + 'a list" where
  "array_filter p [] = Inr []"
| "array_filter p (x # xs) =
     (case p x of
        Inl e \<Rightarrow> Inl e
      | Inr b \<Rightarrow>
          (case array_filter p xs of
             Inl e \<Rightarrow> Inl e
           | Inr ys \<Rightarrow> Inr (if b then x # ys else ys)))"

definition filter_callback :: "host \<Rightarrow> GridDataManager \<Rightarrow> FilterConfig \<Rightarrow> RowId \<Rightarrow> error + bool" where
  "filter_callback h s f i =
     (case Map_get (rowMap s) i of None \<Rightarrow> Inl TypeError | Some row \<Rightarrow> Inr (passes h f row))"

text \<open>The loop \<^verbatim>\<open>for (const filter of this.activeFilters)\<close>.\<close>

fun apply_filters ::
  "host \<Rightarrow> GridDataManager \<Rightarrow> FilterConfig list \<Rightarrow> RowId list \<Rightarrow> error + RowId list" where
  "apply_filters h s [] ids = Inr ids"
| "apply_filters h s (f # fs) ids =
     (case array_filter (filter_callback h s f) ids of
        Inl e \<Rightarrow> Inl e
      | Inr ids' \<Rightarrow> apply_filters h s fs ids')"

text \<open>The parameter \<^verbatim>\<open>skipSearch\<close> is declared and never read.\<close>

definition applyCurrentFilters :: "host \<Rightarrow> GridDataManager \<Rightarrow> bool \<Rightarrow> error + GridDataManager" where
  "applyCurrentFilters h s skipSearch =
     (case apply_filters h s (activeFilters s) (displayIndex s) of
        Inl e \<Rightarrow> Inl e
      | Inr ids \<Rightarrow> Inr (s\<lparr>filteredIndex := ids\<rparr>))"

subsection \<open>Public operations\<close>

text \<open>
  An operation returns \<open>Inl TypeError\<close> when the source throws, and otherwise the value
  it returns (\<open>None\<close> for \<^verbatim>\<open>null\<close>) with the manager after the call.
\<close>

definition sortBy ::
  "host \<Rightarrow> GridDataManager \<Rightarrow> string \<Rightarrow> SortDirection \<Rightarrow> error + (Snapshot \<times> GridDataManager)" where
  "sortBy h s column direction =
     (let s1 = s\<lparr>currentSort := \<lparr> cs_column = Some column, cs_direction = direction \<rparr>\<rparr> in
      case array_sort
             (if direction = NoSort then compare_none h s1
              else compare_column h s1 column direction)
             (displayIndex s1) of
        Inl e \<Rightarrow> Inl e
      | Inr ids \<Rightarrow>
          (case applyCurrentFilters h (s1\<lparr>displayIndex := ids\<rparr>) False of
             Inl e \<Rightarrow> Inl e
           | Inr s2 \<Rightarrow> Inr (getCurrentState s2, s2)))"

text \<open>The cache refresh of \<^verbatim>\<open>updateCell\<close> (\<^verbatim>\<open>if (this.sortValues.has(column))\<close>).\<close>

definition refresh_sort_value ::
  "host \<Rightarrow> GridDataManager \<Rightarrow> RowId \<Rightarrow> string \<Rightarrow> jsval \<Rightarrow> GridDataManager" where
  "refresh_sort_value h s i column v =
     (case Map_get (sortValues s) column of
        None \<Rightarrow> s
      | Some m \<Rightarrow>
          if column \<in> set DATE_COLUMNS \<and> truthy v
          then s\<lparr>sortValues := set_sort_value (sortValues s) column i (Date_getTime h v)\<rparr>
          else if column \<in> set NUMERIC_COLUMNS \<and> v \<noteq> JNull \<and> v \<noteq> JUndefined
          then (let numValue = Number h v in
                if \<not> isNaN numValue
                then s\<lparr>sortValues := set_sort_value (sortValues s) column i numValue\<rparr>
                else s)
          else s)"

definition updateCell ::
  "host \<Rightarrow> GridDataManager \<Rightarrow> RowId \<Rightarrow> string \<Rightarrow> jsval \<Rightarrow> error + (Snapshot option \<times> GridDataManager)" where
  "updateCell h s i column v =
     (case Map_get (rowMap s) i of
        None \<Rightarrow> Inr (None, s)
      | Some row \<Rightarrow>
          (let row' = row(column \<mapsto> v);
               s1 = s\<lparr>rowMap := Map_set (rowMap s) i row'\<rparr>;
               s2 = (if column \<in> set SEARCHABLE_COLUMNS
                     then s1\<lparr>searchIndex := Map_set (searchIndex s1) i (buildSearchString row')\<rparr>
                     else s1);
               s3 = refresh_sort_value h s2 i column v
           in case (if cs_column (currentSort s3) = Some column
                       \<and> cs_direction (currentSort s3) \<noteq> NoSort
                    then map_sum id snd (sortBy h s3 column (cs_direction (currentSort s3)))
                    else Inr s3) of
                Inl e \<Rightarrow> Inl e
              | Inr s4 \<Rightarrow>
                  (case applyCurrentFilters h s4 False of
                     Inl e \<Rightarrow> Inl e
                   | Inr s5 \<Rightarrow> Inr (Some (getCurrentState s5), s5))))"

definition addRow ::
  "host \<Rightarrow> GridDataManager \<Rightarrow> RowData \<Rightarrow> error + (Snapshot option \<times> GridDataManager)" where
  "addRow h s row =
     (let i = String (get_prop row (idField s)) in
      if Map_has (rowMap s) i then Inr (None, s)
      else
        (let s1 = s\<lparr>rowMap := Map_set (rowMap s) i row,
                     displayIndex := displayIndex s @ [i],
                     searchIndex := Map_set (searchIndex s) i (buildSearchString row)\<rparr>;
             s2 = precomputeSortValues h s1 i row
         in case (case cs_column (currentSort s2) of
                    Some column \<Rightarrow>
                      if column \<noteq> [] \<and> cs_direction (currentSort s2) \<noteq> NoSort
                      then map_sum id snd (sortBy h s2 column (cs_direction (currentSort s2)))
                      else Inr s2
                  | None \<Rightarrow> Inr s2) of
              Inl e \<Rightarrow> Inl e
            | Inr s3 \<Rightarrow>
                (case applyCurrentFilters h s3 False of
                   Inl e \<Rightarrow> Inl e
                 | Inr s4 \<Rightarrow> Inr (Some (getCurrentState s4), s4))))"

definition deleteRow :: "GridDataManager \<Rightarrow> RowId \<Rightarrow> Snapshot option \<times> GridDataManager" where
  "deleteRow s i =
     (if \<not> Map_has (rowMap s) i then (None, s)
      else
        (let s1 = s\<lparr>rowMap := Map_delete (rowMap s) i,
                     displayIndex := filter (\<lambda>rowId. rowId \<noteq> i) (displayIndex s),
                     filteredIndex := filter (\<lambda>rowId. rowId \<noteq> i) (filteredIndex s),
                     searchIndex := Map_delete (searchIndex s) i,
                     sortValues := map (\<lambda>(c, valueMap). (c, Map_delete valueMap i)) (sortValues s)\<rparr>
         in (Some (getCurrentState s1), s1)))"

definition filterBySearch ::
  "host \<Rightarrow> GridDataManager \<Rightarrow> string \<Rightarrow> error + (Snapshot \<times> GridDataManager)" where
  "filterBySearch h s query =
     (if query = []
      then (case applyCurrentFilters h s True of
              Inl e \<Rightarrow> Inl e
            | Inr s1 \<Rightarrow> Inr (getCurrentState s1, s1))
      else
        (let lowerQuery = toLowerCase query;
             s1 = s\<lparr>filteredIndex :=
                      filter (\<lambda>i. case Map_get (searchIndex s) i of
                                     None \<Rightarrow> False
                                   | Some str \<Rightarrow> str_includes str lowerQuery)
                             (displayIndex s)\<rparr>
         in Inr (getCurrentState s1, s1)))"

definition addFilter ::
  "host \<Rightarrow> GridDataManager \<Rightarrow> FilterConfig \<Rightarrow> error + (Snapshot \<times> GridDataManager)" where
  "addFilter h s f =
     (let s1 = s\<lparr>activeFilters :=
                   filter (\<lambda>g. f_column g \<noteq> f_column f) (activeFilters s) @ [f]\<rparr> in
      case applyCurrentFilters h s1 False of
        Inl e \<Rightarrow> Inl e
      | Inr s2 \<Rightarrow> Inr (getCurrentState s2, s2))"

definition removeFilter ::
  "host \<Rightarrow> GridDataManager \<Rightarrow> string \<Rightarrow> error + (Snapshot \<times> GridDataManager)" where
  "removeFilter h s column =
     (let s1 = s\<lparr>activeFilters := filter (\<lambda>g. f_column g \<noteq> column) (activeFilters s)\<rparr> in
      case applyCurrentFilters h s1 False of
        Inl e \<Rightarrow> Inl e
      | Inr s2 \<Rightarrow> Inr (getCurrentState s2, s2))"

definition clearFilters :: "GridDataManager \<Rightarrow> Snapshot \<times> GridDataManager" where
  "clearFilters s =
     (let s1 = s\<lparr>activeFilters := [], filteredIndex := displayIndex s\<rparr> in
      (getCurrentState s1, s1))"

subsection \<open>Sequences of operations\<close>

datatype operation =
    SortBy string SortDirection
  | UpdateCell RowId string jsval
  | AddRow RowData
  | DeleteRow RowId
  | FilterBySearch string
  | AddFilter FilterConfig
  | RemoveFilter string
  | ClearFilters

text \<open>The manager after one public call.\<close>

definition step :: "host \<Rightarrow> GridDataManager \<Rightarrow> operation \<Rightarrow> error + GridDataManager" where
  "step h s opn =
     (case opn of
        SortBy column direction \<Rightarrow> map_sum id snd (sortBy h s column direction)
      | UpdateCell i column v \<Rightarrow> map_sum id snd (updateCell h s i column v)
      | AddRow row \<Rightarrow> map_sum id snd (addRow h s row)
      | DeleteRow i \<Rightarrow> Inr (snd (deleteRow s i))
      | FilterBySearch query \<Rightarrow> map_sum id snd (filterBySearch h s query)
      | AddFilter f \<Rightarrow> map_sum id snd (addFilter h s f)
      | RemoveFilter column \<Rightarrow> map_sum id snd (removeFilter h s column)
      | ClearFilters \<Rightarrow> Inr (snd (clearFilters s)))"

fun run :: "host \<Rightarrow> GridDataManager \<Rightarrow> operation list \<Rightarrow> error + GridDataManager" where
  "run h s [] = Inr s"
| "run h s (opn # ops) = (case step h s opn of Inl e \<Rightarrow> Inl e | Inr s' \<Rightarrow> run h s' ops)"

section \<open>Pagination in the controller\<close>

text \<open>
  The page state of \<^verbatim>\<open>useGridManager\<close>. The page size and the filtered count are
  integers; a page number is a JavaScript number, since a page size of zero makes the last
  page infinite or \<^verbatim>\<open>NaN\<close>.
\<close>

record PageState =
  currentPage :: jsnum
  pageSize :: int

text \<open>\<^verbatim>\<open>Math.ceil(n / size)\<close>.\<close>

definition ceil_div :: "nat \<Rightarrow> int \<Rightarrow> jsnum" where
  "ceil_div n sz =
     (if sz = 0 then (if n = 0 then NaN else PInf)
      else Num (- ((- int n) div sz)))"

text \<open>\<^verbatim>\<open>a + b\<close> on numbers.\<close>

definition js_add :: "jsnum \<Rightarrow> jsnum \<Rightarrow> jsnum" where
  "js_add a b = (case (a, b) of
      (NaN, _) \<Rightarrow> NaN
    | (_, NaN) \<Rightarrow> NaN
    | (Num x, Num y) \<Rightarrow> Num (x + y)
    | (PInf, NInf) \<Rightarrow> NaN
    | (NInf, PInf) \<Rightarrow> NaN
    | (PInf, _) \<Rightarrow> PInf
    | (_, PInf) \<Rightarrow> PInf
    | (NInf, _) \<Rightarrow> NInf
    | (_, NInf) \<Rightarrow> NInf)"

text \<open>\<^verbatim>\<open>Math.min(a, b)\<close> and \<^verbatim>\<open>Math.max(a, b)\<close>: \<^verbatim>\<open>NaN\<close> when either is.\<close>

definition Math_min :: "jsnum \<Rightarrow> jsnum \<Rightarrow> jsnum" where
  "Math_min a b = (if a = NaN \<or> b = NaN then NaN else if num_less b a then b else a)"

definition Math_max :: "jsnum \<Rightarrow> jsnum \<Rightarrow> jsnum" where
  "Math_max a b = (if a = NaN \<or> b = NaN then NaN else if num_less a b then b else a)"

text \<open>\<^verbatim>\<open>Math.ceil(gridState.filteredCount / pageSize) - 1\<close>.\<close>

definition maxPage :: "nat \<Rightarrow> int \<Rightarrow> jsnum" where
  "maxPage filteredCount sz = js_sub (ceil_div filteredCount sz) (Num 1)"

definition goToPage :: "nat \<Rightarrow> PageState \<Rightarrow> jsnum \<Rightarrow> PageState" where
  "goToPage filteredCount p page =
     (let validPage = Math_max (Num 0) (Math_min page (maxPage filteredCount (pageSize p)))
      in p\<lparr>currentPage := validPage\<rparr>)"

definition nextPage :: "nat \<Rightarrow> PageState \<Rightarrow> PageState" where
  "nextPage filteredCount p =
     p\<lparr>currentPage :=
         Math_min (js_add (currentPage p) (Num 1)) (maxPage filteredCount (pageSize p))\<rparr>"






section \<open>Notions used in the statements\<close>

text \<open>The record stored under an identifier (the empty record when there is none).\<close>

definition row_at :: "GridDataManager \<Rightarrow> RowId \<Rightarrow> RowData" where
  "row_at s i = (case Map_get (rowMap s) i of None \<Rightarrow> Map.empty | Some row \<Rightarrow> row)"

text \<open>The stringified identifier-field value of the record stored under an identifier.\<close>

definition id_string :: "GridDataManager \<Rightarrow> RowId \<Rightarrow> string" where
  "id_string s i = String (get_prop (row_at s i) (idField s))"

text \<open>The record stored under an identifier passes every active column filter.\<close>

definition passes_all :: "host \<Rightarrow> GridDataManager \<Rightarrow> RowId \<Rightarrow> bool" where
  "passes_all h s i = list_all (\<lambda>f. passes h f (row_at s i)) (activeFilters s)"

text \<open>The search key of an identifier contains the lowercased query.\<close>

definition search_hit :: "GridDataManager \<Rightarrow> string \<Rightarrow> RowId \<Rightarrow> bool" where
  "search_hit s query i =
     (case Map_get (searchIndex s) i of
        None \<Rightarrow> False
      | Some str \<Rightarrow> str_includes str (toLowerCase query))"

text \<open>
  The Filtered Index as the specification describes it: the subsequence of the Display
  Index whose records pass the active search query (an empty query lets every record pass)
  and every active column filter.
\<close>

definition spec_filteredIndex :: "host \<Rightarrow> GridDataManager \<Rightarrow> string \<Rightarrow> RowId list" where
  "spec_filteredIndex h s query =
     filter (\<lambda>i. (query = [] \<or> search_hit s query i) \<and> passes_all h s i) (displayIndex s)"

text \<open>The search query in force after a sequence of calls: that of the last search.\<close>

fun active_query :: "string \<Rightarrow> operation list \<Rightarrow> string" where
  "active_query q [] = q"
| "active_query q (FilterBySearch q' # ops) = active_query q' ops"
| "active_query q (_ # ops) = active_query q ops"

text \<open>Every identifier of the Display Index has a record in the Row Store.\<close>

definition rows_present :: "GridDataManager \<Rightarrow> bool" where
  "rows_present s = list_all (\<lambda>i. Map_has (rowMap s) i) (displayIndex s)"

text \<open>
  Stable insertion with a relation \<open>gt\<close> (\<open>gt a b\<close>: the comparator's result on
  \<open>a\<close> and \<open>b\<close> is positive), for a comparator that does not throw.
\<close>

fun stable_insert :: "('a \<Rightarrow> 'a \<Rightarrow> bool) \<Rightarrow> 'a \<Rightarrow> 'a list \<Rightarrow> 'a list" where
  "stable_insert gt x [] = [x]"
| "stable_insert gt x (y # ys) = (if gt x y then y # stable_insert gt x ys else x # y # ys)"

fun stable_sort :: "('a \<Rightarrow> 'a \<Rightarrow> bool) \<Rightarrow> 'a list \<Rightarrow> 'a list" where
  "stable_sort gt [] = []"
| "stable_sort gt (x # xs) = stable_insert gt x (stable_sort gt xs)"

text \<open>The comparison key of \<^verbatim>\<open>sortBy\<close> on a column with cached values: absent means 0.\<close>

definition cached_key :: "(RowId, jsnum) js_map \<Rightarrow> RowId \<Rightarrow> jsnum" where
  "cached_key m i = (case Map_get m i of None \<Rightarrow> Num 0 | Some v \<Rightarrow> v)"

text \<open>The integer of a finite number.\<close>

definition int_of :: "jsnum \<Rightarrow> int" where
  "int_of x = (case x of Num n \<Rightarrow> n | _ \<Rightarrow> 0)"

definition finite_num :: "jsnum \<Rightarrow> bool" where
  "finite_num x = (case x of Num n \<Rightarrow> True | _ \<Rightarrow> False)"

text \<open>
  The host's collation is a total preorder: of two strings one does not come after the
  other, and "does not come after" is transitive.
\<close>

definition collation_ok :: "host \<Rightarrow> bool" where
  "collation_ok h =
     ((\<forall>a b. localeCompare h a b \<le> 0 \<or> localeCompare h b a \<le> 0) \<and>
      (\<forall>a b c. localeCompare h a b \<le> 0 \<and> localeCompare h b c \<le> 0 \<longrightarrow> localeCompare h a c \<le> 0))"

text \<open>
  The value of the comparator of \<^verbatim>\<open>sortBy\<close> on two identifiers that have records
  (\<^const>\<open>compare_none\<close> for direction \<^verbatim>\<open>'none'\<close>, \<^const>\<open>compare_column\<close> otherwise).
\<close>

definition sort_cmp ::
  "host \<Rightarrow> GridDataManager \<Rightarrow> string \<Rightarrow> SortDirection \<Rightarrow> RowId \<Rightarrow> RowId \<Rightarrow> jsnum" where
  "sort_cmp h s column direction a b =
     (if direction = NoSort
      then Num (localeCompare h (id_string s a) (id_string s b))
      else
        (case Map_get (sortValues s) column of
           Some m \<Rightarrow>
             (if direction = Asc then js_sub (cached_key m a) (cached_key m b)
              else js_sub (cached_key m b) (cached_key m a))
         | None \<Rightarrow>
             (let va = get_prop (row_at s a) column; vb = get_prop (row_at s b) column in
              if typeof_number va \<and> typeof_number vb
              then (if direction = Asc then js_sub (number_of va) (number_of vb)
                    else js_sub (number_of vb) (number_of va))
              else Num (if direction = Asc
                        then localeCompare h (String (or_empty va)) (String (or_empty vb))
                        else - localeCompare h (String (or_empty va)) (String (or_empty vb))))))"

text \<open>The comparator puts \<open>a\<close> after \<open>b\<close>; the two tie when neither is put after the other.\<close>

definition sort_gt ::
  "host \<Rightarrow> GridDataManager \<Rightarrow> string \<Rightarrow> SortDirection \<Rightarrow> RowId \<Rightarrow> RowId \<Rightarrow> bool" where
  "sort_gt h s column direction a b = positive (sort_cmp h s column direction a b)"

definition sort_tie ::
  "host \<Rightarrow> GridDataManager \<Rightarrow> string \<Rightarrow> SortDirection \<Rightarrow> RowId \<Rightarrow> RowId \<Rightarrow> bool" where
  "sort_tie h s column direction a b =
     (\<not> sort_gt h s column direction a b \<and> \<not> sort_gt h s column direction b a)"

text \<open>The Filtered Index recomputed from the Display Index and the active filters.\<close>

definition refilter :: "host \<Rightarrow> GridDataManager \<Rightarrow> GridDataManager" where
  "refilter h s = s\<lparr>filteredIndex := filter (passes_all h s) (displayIndex s)\<rparr>"

text \<open>The manager after a sort in which no comparison throws.\<close>

definition resort :: "host \<Rightarrow> GridDataManager \<Rightarrow> string \<Rightarrow> SortDirection \<Rightarrow> GridDataManager" where
  "resort h s column direction =
     refilter h
       (s\<lparr>currentSort := \<lparr> cs_column = Some column, cs_direction = direction \<rparr>,
          displayIndex := stable_sort (sort_gt h s column direction) (displayIndex s)\<rparr>)"

text \<open>
  The state of \<^verbatim>\<open>updateCell\<close> after the record and the caches are updated, before
  the sort and the filters are applied again.
\<close>

definition cell_written ::
  "host \<Rightarrow> GridDataManager \<Rightarrow> RowId \<Rightarrow> string \<Rightarrow> jsval \<Rightarrow> RowData \<Rightarrow> GridDataManager" where
  "cell_written h s i column v row =
     (let row' = row(column \<mapsto> v);
          s1 = s\<lparr>rowMap := Map_set (rowMap s) i row'\<rparr>;
          s2 = (if column \<in> set SEARCHABLE_COLUMNS
                then s1\<lparr>searchIndex := Map_set (searchIndex s1) i (buildSearchString row')\<rparr>
                else s1)
      in refresh_sort_value h s2 i column v)"

text \<open>The state of \<^verbatim>\<open>addRow\<close> after the record is stored and its cache entries are built.\<close>

definition row_stored :: "host \<Rightarrow> GridDataManager \<Rightarrow> RowData \<Rightarrow> GridDataManager" where
  "row_stored h s row =
     (let i = String (get_prop row (idField s)) in
      precomputeSortValues h
        (s\<lparr>rowMap := Map_set (rowMap s) i row,
           displayIndex := displayIndex s @ [i],
           searchIndex := Map_set (searchIndex s) i (buildSearchString row)\<rparr>) i row)"

text \<open>
  Index consistency: the Display Index holds exactly the keys of the Row Store, and the
  Filtered Index only identifiers of the Display Index.
\<close>

definition consistent :: "GridDataManager \<Rightarrow> bool" where
  "consistent s =
     (set (displayIndex s) = fst ` set (rowMap s) \<and>
      set (filteredIndex s) \<subseteq> set (displayIndex s))"

text \<open>The Sort Key Cache entry of an identifier for a column.\<close>

definition cache_entry :: "GridDataManager \<Rightarrow> string \<Rightarrow> RowId \<Rightarrow> jsnum option" where
  "cache_entry s column i =
     (case Map_get (sortValues s) column of None \<Rightarrow> None | Some m \<Rightarrow> Map_get m i)"

section \<open>Example inputs\<close>

text \<open>
  A host for the examples. Its collation is the order of code units, which is the host's
  order on the digit strings and lowercase words the examples compare. Its conversion of
  a string to a number reads a string of decimal digits (the empty string is 0) and gives
  \<^verbatim>\<open>NaN\<close> on a string with any other character, as the examples need; its
  \<^verbatim>\<open>Date.parse\<close> is a table of the date strings of the examples.
\<close>

definition digit_value :: "char \<Rightarrow> nat option" where
  "digit_value c =
     (let n = of_char c :: nat in if 48 \<le> n \<and> n \<le> 57 then Some (n - 48) else None)"

fun parse_digits :: "nat \<Rightarrow> string \<Rightarrow> jsnum" where
  "parse_digits acc [] = Num (int acc)"
| "parse_digits acc (c # cs) =
     (case digit_value c of None \<Rightarrow> NaN | Some d \<Rightarrow> parse_digits (10 * acc + d) cs)"

definition example_host :: host where
  "example_host =
     \<lparr> localeCompare = (\<lambda>a b. if str_less a b then - 1 else if a = b then 0 else 1),
       dateParse = (\<lambda>s. if s = ''2024-01-15'' then Num 1705276800000 else NaN),
       stringToNumber = parse_digits 0 \<rparr>"

text \<open>The store of the specification's scenario: identifiers 1, 2, 3 with amounts 10, 5, 20.\<close>

definition scenario_rows :: "RowData list" where
  "scenario_rows =
     [[''id'' \<mapsto> JStr ''1'', ''amount'' \<mapsto> JNum (Num 10)],
      [''id'' \<mapsto> JStr ''2'', ''amount'' \<mapsto> JNum (Num 5)],
      [''id'' \<mapsto> JStr ''3'', ''amount'' \<mapsto> JNum (Num 20)]]"

definition scenario :: GridDataManager where
  "scenario = new_GridDataManager example_host scenario_rows ''id''"

text \<open>A store in which one record has no amount and another a negative one.\<close>

definition sparse_rows :: "RowData list" where
  "sparse_rows =
     [[''id'' \<mapsto> JStr ''1'', ''amount'' \<mapsto> JNum (Num 10)],
      [''id'' \<mapsto> JStr ''2''],
      [''id'' \<mapsto> JStr ''3'', ''amount'' \<mapsto> JNum (Num (- 5))]]"

definition sparse :: GridDataManager where
  "sparse = new_GridDataManager example_host sparse_rows ''id''"

text \<open>The manager after a sequence of calls (the manager itself if a call throws).\<close>

definition after :: "host \<Rightarrow> GridDataManager \<Rightarrow> operation list \<Rightarrow> GridDataManager" where
  "after h s ops = (case run h s ops of Inl e \<Rightarrow> s | Inr s' \<Rightarrow> s')"

text \<open>Two records with different amounts and the same price.\<close>

definition tied_rows :: "RowData list" where
  "tied_rows =
     [[''id'' \<mapsto> JStr ''1'', ''amount'' \<mapsto> JNum (Num 2), ''price'' \<mapsto> JNum (Num 1)],
      [''id'' \<mapsto> JStr ''2'', ''amount'' \<mapsto> JNum (Num 1), ''price'' \<mapsto> JNum (Num 1)]]"

definition tied :: GridDataManager where
  "tied = new_GridDataManager example_host tied_rows ''id''"

text \<open>A store with names to search, and a filter on the amount.\<close>

definition named_rows :: "RowData list" where
  "named_rows =
     [[''id'' \<mapsto> JStr ''1'', ''name'' \<mapsto> JStr ''Alice'', ''amount'' \<mapsto> JNum (Num 10)],
      [''id'' \<mapsto> JStr ''2'', ''name'' \<mapsto> JStr ''Alina'', ''amount'' \<mapsto> JNum (Num 5)],
      [''id'' \<mapsto> JStr ''3'', ''name'' \<mapsto> JStr ''Bob'', ''amount'' \<mapsto> JNum (Num 20)]]"

definition named :: GridDataManager where
  "named = new_GridDataManager example_host named_rows ''id''"

definition amount_above_6 :: FilterConfig where
  "amount_above_6 = \<lparr> f_column = ''amount'', f_value = JNum (Num 6), f_operator = OpGt \<rparr>"

text \<open>A store with a date, and construction inputs with a repeated and with an absent identifier.\<close>

definition dated :: GridDataManager where
  "dated = new_GridDataManager example_host
     [[''id'' \<mapsto> JStr ''1'', ''date'' \<mapsto> JStr ''2024-01-15'']] ''id''"

definition repeated_id_rows :: "RowData list" where
  "repeated_id_rows =
     [[''id'' \<mapsto> JStr ''1'', ''name'' \<mapsto> JStr ''a''],
      [''id'' \<mapsto> JStr ''1'', ''name'' \<mapsto> JStr ''b'']]"

definition absent_id_rows :: "RowData list" where
  "absent_id_rows = [[''name'' \<mapsto> JStr ''a''], [''name'' \<mapsto> JStr ''b'']]"

text \<open>The value returned by an operation is a snapshot, not \<^verbatim>\<open>null\<close>.\<close>

definition returned_snapshot :: "Snapshot option \<Rightarrow> bool" where
  "returned_snapshot r = (case r of None \<Rightarrow> False | Some snap \<Rightarrow> True)"

section \<open>Sorting and filtering without exceptions\<close>

lemma insert_by_pure:
  "\<forall>y\<in>set ys. c x y = Inr (k x y) \<Longrightarrow>
   insert_by c x ys = Inr (stable_insert (\<lambda>a b. positive (k a b)) x ys)"
  by (induction ys) auto

lemma set_stable_insert [simp]: "set (stable_insert gt x ys) = insert x (set ys)"
  by (induction ys) auto

lemma mset_stable_insert [simp]: "mset (stable_insert gt x ys) = add_mset x (mset ys)"
  by (induction ys) auto

lemma mset_stable_sort [simp]: "mset (stable_sort gt xs) = mset xs"
  by (induction xs) auto

lemma set_stable_sort [simp]: "set (stable_sort gt xs) = set xs"
  by (induction xs) auto

lemma distinct_stable_sort [simp]: "distinct (stable_sort gt xs) = distinct xs"
  by (rule mset_eq_imp_distinct_iff) simp

lemma array_sort_pure:
  "\<forall>a\<in>set xs. \<forall>b\<in>set xs. c a b = Inr (k a b) \<Longrightarrow>
   array_sort c xs = Inr (stable_sort (\<lambda>a b. positive (k a b)) xs)"
proof (induction xs)
  case Nil
  then show ?case by simp
next
  case (Cons x xs)
  then have "array_sort c xs = Inr (stable_sort (\<lambda>a b. positive (k a b)) xs)" by simp
  moreover have "\<forall>y\<in>set (stable_sort (\<lambda>a b. positive (k a b)) xs). c x y = Inr (k x y)"
    using Cons.prems by simp
  ultimately show ?case by (simp add: insert_by_pure)
qed

lemma stable_insert_key:
  "(\<forall>y\<in>set ys. gt x y = (f y < f x)) \<Longrightarrow> stable_insert gt x ys = insort_key f x ys"
  by (induction ys) (auto simp: not_less)

lemma stable_sort_key:
  fixes f :: "'a \<Rightarrow> 'b::linorder"
  shows "(\<forall>a\<in>set xs. \<forall>b\<in>set xs. gt a b = (f b < f a)) \<Longrightarrow> stable_sort gt xs = sort_key f xs"
proof (induction xs)
  case Nil
  then show ?case by simp
next
  case (Cons x xs)
  then have "stable_sort gt xs = sort_key f xs" by simp
  then show ?case using Cons.prems by (simp add: stable_insert_key)
qed

lemma sorted_wrt_stable_insert:
  assumes "sorted_wrt (\<lambda>a b. \<not> gt a b) ys"
    and "\<And>y. y \<in> set ys \<Longrightarrow> gt x y \<Longrightarrow> \<not> gt y x"
    and "\<And>y z. y \<in> set ys \<Longrightarrow> z \<in> set ys \<Longrightarrow> \<not> gt x y \<Longrightarrow> \<not> gt y z \<Longrightarrow> \<not> gt x z"
  shows "sorted_wrt (\<lambda>a b. \<not> gt a b) (stable_insert gt x ys)"
  using assms
proof (induction ys)
  case Nil
  show ?case by simp
next
  case (Cons y ys)
  have s1: "sorted_wrt (\<lambda>a b. \<not> gt a b) ys" and s2: "\<And>z. z \<in> set ys \<Longrightarrow> \<not> gt y z"
    using Cons.prems(1) by simp_all
  show ?case
  proof (cases "gt x y")
    case True
    have "sorted_wrt (\<lambda>a b. \<not> gt a b) (stable_insert gt x ys)"
    proof (rule Cons.IH[OF s1])
      fix u assume "u \<in> set ys" "gt x u"
      then show "\<not> gt u x" using Cons.prems(2)[of u] by simp
    next
      fix u v assume "u \<in> set ys" "v \<in> set ys" "\<not> gt x u" "\<not> gt u v"
      then show "\<not> gt x v" using Cons.prems(3)[of u v] by simp
    qed
    moreover have "\<not> gt y x" using True Cons.prems(2)[of y] by simp
    ultimately show ?thesis using True s2 by simp
  next
    case False
    have "\<And>z. z \<in> set ys \<Longrightarrow> \<not> gt x z"
      using Cons.prems(3)[of y] False s2 by simp
    then show ?thesis using False Cons.prems(1) by simp
  qed
qed

lemma sorted_wrt_stable_sort:
  assumes "\<And>a b. a \<in> set xs \<Longrightarrow> b \<in> set xs \<Longrightarrow> gt a b \<Longrightarrow> \<not> gt b a"
    and "\<And>a b c. a \<in> set xs \<Longrightarrow> b \<in> set xs \<Longrightarrow> c \<in> set xs \<Longrightarrow> \<not> gt a b \<Longrightarrow> \<not> gt b c \<Longrightarrow> \<not> gt a c"
  shows "sorted_wrt (\<lambda>a b. \<not> gt a b) (stable_sort gt xs)"
  using assms
proof (induction xs)
  case Nil
  show ?case by simp
next
  case (Cons x xs)
  have 1: "sorted_wrt (\<lambda>a b. \<not> gt a b) (stable_sort gt xs)"
  proof (rule Cons.IH)
    fix a b assume "a \<in> set xs" "b \<in> set xs" "gt a b"
    then show "\<not> gt b a" using Cons.prems(1)[of a b] by simp
  next
    fix a b c assume "a \<in> set xs" "b \<in> set xs" "c \<in> set xs" "\<not> gt a b" "\<not> gt b c"
    then show "\<not> gt a c" using Cons.prems(2)[of a b c] by simp
  qed
  have "sorted_wrt (\<lambda>a b. \<not> gt a b) (stable_insert gt x (stable_sort gt xs))"
  proof (rule sorted_wrt_stable_insert[OF 1])
    fix y assume "y \<in> set (stable_sort gt xs)" "gt x y"
    then show "\<not> gt y x" using Cons.prems(1)[of x y] by simp
  next
    fix y z assume "y \<in> set (stable_sort gt xs)" "z \<in> set (stable_sort gt xs)" "\<not> gt x y" "\<not> gt y z"
    then show "\<not> gt x z" using Cons.prems(2)[of x y z] by simp
  qed
  then show ?case by simp
qed

lemma array_filter_pure:
  "\<forall>x\<in>set xs. p x = Inr (q x) \<Longrightarrow> array_filter p xs = Inr (filter q xs)"
  by (induction xs) auto

lemma rows_presentD: "rows_present s \<Longrightarrow> i \<in> set (displayIndex s) \<Longrightarrow> \<exists>row. Map_get (rowMap s) i = Some row"
  by (auto simp: rows_present_def list_all_iff)

lemma row_at_Some [simp]: "Map_get (rowMap s) i = Some row \<Longrightarrow> row_at s i = row"
  by (simp add: row_at_def)

lemma compare_pure:
  assumes "Map_get (rowMap s) a = Some ra" "Map_get (rowMap s) b = Some rb"
  shows "(if d = NoSort then compare_none h s a b else compare_column h s c d a b)
           = Inr (sort_cmp h s c d a b)"
proof (cases "d = NoSort")
  case True
  then show ?thesis using assms
    by (simp add: compare_none_def sort_cmp_def id_string_def)
next
  case False
  then show ?thesis using assms
    by (simp add: compare_column_def sort_cmp_def cached_key_def Let_def
             split: option.split)
qed

lemma row_at_frame: "rowMap s' = rowMap s \<Longrightarrow> row_at s' = row_at s"
  by (intro ext) (simp add: row_at_def)

lemma sort_cmp_frame:
  "rowMap s' = rowMap s \<Longrightarrow> sortValues s' = sortValues s \<Longrightarrow> idField s' = idField s \<Longrightarrow>
   sort_cmp h s' = sort_cmp h s"
  by (intro ext) (simp add: sort_cmp_def id_string_def row_at_frame[of s' s] cong: option.case_cong)

lemma apply_filters_pure:
  "list_all (\<lambda>i. Map_has (rowMap s) i) ids \<Longrightarrow>
   apply_filters h s fs ids = Inr (filter (\<lambda>i. list_all (\<lambda>f. passes h f (row_at s i)) fs) ids)"
proof (induction fs arbitrary: ids)
  case Nil
  show ?case by simp
next
  case (Cons f fs)
  have cb: "\<forall>i\<in>set ids. filter_callback h s f i = Inr (passes h f (row_at s i))"
    using Cons.prems by (auto simp: filter_callback_def list_all_iff)
  have 1: "array_filter (filter_callback h s f) ids = Inr (filter (\<lambda>i. passes h f (row_at s i)) ids)"
    by (rule array_filter_pure[OF cb])
  have 2: "list_all (\<lambda>i. Map_has (rowMap s) i) (filter (\<lambda>i. passes h f (row_at s i)) ids)"
    using Cons.prems by (simp add: list_all_iff)
  show ?case
    by (simp add: 1 Cons.IH[OF 2] conj_commute)
qed

lemma applyCurrentFilters_present:
  "rows_present s \<Longrightarrow> applyCurrentFilters h s b = Inr (refilter h s)"
  unfolding rows_present_def applyCurrentFilters_def refilter_def
  by (simp add: apply_filters_pure passes_all_def[abs_def])

lemma passes_all_frame:
  "rowMap s' = rowMap s \<Longrightarrow> activeFilters s' = activeFilters s \<Longrightarrow> passes_all h s' = passes_all h s"
  by (intro ext) (simp add: passes_all_def row_at_frame[of s' s])

lemma sortBy_present:
  assumes "rows_present s"
  shows "sortBy h s c d = Inr (getCurrentState (resort h s c d), resort h s c d)"
proof -
  let ?s1 = "s\<lparr>currentSort := \<lparr> cs_column = Some c, cs_direction = d \<rparr>\<rparr>"
  have cmp: "\<forall>a\<in>set (displayIndex ?s1). \<forall>b\<in>set (displayIndex ?s1).
      (if d = NoSort then compare_none h ?s1 else compare_column h ?s1 c d) a b
        = Inr (sort_cmp h s c d a b)"
  proof (intro ballI)
    fix a b assume "a \<in> set (displayIndex ?s1)" "b \<in> set (displayIndex ?s1)"
    then obtain ra rb where "Map_get (rowMap ?s1) a = Some ra" "Map_get (rowMap ?s1) b = Some rb"
      using rows_presentD[OF assms] by fastforce
    from compare_pure[OF this, of d h c]
    have "(if d = NoSort then compare_none h ?s1 a b else compare_column h ?s1 c d a b)
           = Inr (sort_cmp h ?s1 c d a b)" .
    moreover have "sort_cmp h ?s1 = sort_cmp h s" by (rule sort_cmp_frame) simp_all
    ultimately show "(if d = NoSort then compare_none h ?s1 else compare_column h ?s1 c d) a b
        = Inr (sort_cmp h s c d a b)" by (simp split: if_splits)
  qed
  have srt: "array_sort (if d = NoSort then compare_none h ?s1 else compare_column h ?s1 c d)
               (displayIndex ?s1)
             = Inr (stable_sort (sort_gt h s c d) (displayIndex s))"
    using array_sort_pure[OF cmp] by (simp add: sort_gt_def[abs_def])
  let ?s2 = "?s1\<lparr>displayIndex := stable_sort (sort_gt h s c d) (displayIndex s)\<rparr>"
  have "rows_present ?s2"
    using assms by (simp add: rows_present_def list_all_iff)
  then have flt: "applyCurrentFilters h ?s2 False = Inr (refilter h ?s2)"
    by (rule applyCurrentFilters_present)
  have "resort h s c d = refilter h ?s2"
    by (simp add: resort_def)
  then show ?thesis
    unfolding sortBy_def Let_def using srt flt by simp
qed

section \<open>The public operations on a manager whose displayed identifiers have records\<close>

lemma passes_all_update [simp]:
  "passes_all h (s\<lparr>displayIndex := x\<rparr>) = passes_all h s"
  "passes_all h (s\<lparr>filteredIndex := y\<rparr>) = passes_all h s"
  "passes_all h (s\<lparr>currentSort := z\<rparr>) = passes_all h s"
  by (intro ext, simp add: passes_all_def row_at_def)+

lemma refilter_frame [simp]:
  "rowMap (refilter h s) = rowMap s"
  "displayIndex (refilter h s) = displayIndex s"
  "searchIndex (refilter h s) = searchIndex s"
  "sortValues (refilter h s) = sortValues s"
  "activeFilters (refilter h s) = activeFilters s"
  "currentSort (refilter h s) = currentSort s"
  "idField (refilter h s) = idField s"
  "filteredIndex (refilter h s) = filter (passes_all h s) (displayIndex s)"
  by (simp_all add: refilter_def)

lemma resort_frame [simp]:
  "rowMap (resort h s c d) = rowMap s"
  "displayIndex (resort h s c d) = stable_sort (sort_gt h s c d) (displayIndex s)"
  "searchIndex (resort h s c d) = searchIndex s"
  "sortValues (resort h s c d) = sortValues s"
  "activeFilters (resort h s c d) = activeFilters s"
  "currentSort (resort h s c d) = \<lparr> cs_column = Some c, cs_direction = d \<rparr>"
  "idField (resort h s c d) = idField s"
  by (simp_all add: resort_def)

lemma filteredIndex_resort [simp]:
  "filteredIndex (resort h s c d) = filter (passes_all h s) (stable_sort (sort_gt h s c d) (displayIndex s))"
  by (simp add: resort_def)

lemma refresh_sort_value_frame [simp]:
  "rowMap (refresh_sort_value h s i c v) = rowMap s"
  "displayIndex (refresh_sort_value h s i c v) = displayIndex s"
  "filteredIndex (refresh_sort_value h s i c v) = filteredIndex s"
  "searchIndex (refresh_sort_value h s i c v) = searchIndex s"
  "activeFilters (refresh_sort_value h s i c v) = activeFilters s"
  "currentSort (refresh_sort_value h s i c v) = currentSort s"
  "idField (refresh_sort_value h s i c v) = idField s"
  by (simp_all add: refresh_sort_value_def Let_def split: option.split)

lemma precomputeSortValues_frame [simp]:
  "rowMap (precomputeSortValues h s i row) = rowMap s"
  "displayIndex (precomputeSortValues h s i row) = displayIndex s"
  "filteredIndex (precomputeSortValues h s i row) = filteredIndex s"
  "searchIndex (precomputeSortValues h s i row) = searchIndex s"
  "activeFilters (precomputeSortValues h s i row) = activeFilters s"
  "currentSort (precomputeSortValues h s i row) = currentSort s"
  "idField (precomputeSortValues h s i row) = idField s"
  by (simp_all add: precomputeSortValues_def)

lemma cell_written_frame [simp]:
  "rowMap (cell_written h s i c v row) = Map_set (rowMap s) i (row(c \<mapsto> v))"
  "displayIndex (cell_written h s i c v row) = displayIndex s"
  "filteredIndex (cell_written h s i c v row) = filteredIndex s"
  "activeFilters (cell_written h s i c v row) = activeFilters s"
  "currentSort (cell_written h s i c v row) = currentSort s"
  "idField (cell_written h s i c v row) = idField s"
  by (simp_all add: cell_written_def Let_def)

lemma row_stored_frame [simp]:
  "rowMap (row_stored h s row) = Map_set (rowMap s) (String (get_prop row (idField s))) row"
  "displayIndex (row_stored h s row) = displayIndex s @ [String (get_prop row (idField s))]"
  "filteredIndex (row_stored h s row) = filteredIndex s"
  "activeFilters (row_stored h s row) = activeFilters s"
  "currentSort (row_stored h s row) = currentSort s"
  "idField (row_stored h s row) = idField s"
  by (simp_all add: row_stored_def Let_def)

lemma rows_present_iff: "rows_present s \<longleftrightarrow> set (displayIndex s) \<subseteq> fst ` set (rowMap s)"
  by (auto simp add: rows_present_def list_all_iff map_of_eq_None_iff simp del: not_None_eq)

lemma consistent_present: "consistent s \<Longrightarrow> rows_present s"
  by (simp add: consistent_def rows_present_iff)

lemma rows_present_cell_written:
  "rows_present s \<Longrightarrow> rows_present (cell_written h s i c v row)"
  by (auto simp: rows_present_iff dom_update)

lemma rows_present_row_stored:
  "rows_present s \<Longrightarrow> rows_present (row_stored h s row)"
  by (auto simp: rows_present_iff dom_update)

lemma rows_present_resort: "rows_present s \<Longrightarrow> rows_present (resort h s c d)"
  by (simp add: rows_present_iff)

lemma refilter_idem: "refilter h (refilter h s) = refilter h s"
  by (simp add: refilter_def)

lemma refilter_resort: "refilter h (resort h s c d) = resort h s c d"
  by (simp add: resort_def refilter_idem)

text \<open>What each public operation returns when every displayed identifier has a record.\<close>

lemma updateCell_unfold:
  "updateCell h s i c v =
     (case Map_get (rowMap s) i of
        None \<Rightarrow> Inr (None, s)
      | Some row \<Rightarrow>
          (case (if cs_column (currentSort (cell_written h s i c v row)) = Some c
                    \<and> cs_direction (currentSort (cell_written h s i c v row)) \<noteq> NoSort
                 then map_sum id snd (sortBy h (cell_written h s i c v row) c
                        (cs_direction (currentSort (cell_written h s i c v row))))
                 else Inr (cell_written h s i c v row)) of
             Inl e \<Rightarrow> Inl e
           | Inr s4 \<Rightarrow>
               (case applyCurrentFilters h s4 False of
                  Inl e \<Rightarrow> Inl e
                | Inr s5 \<Rightarrow> Inr (Some (getCurrentState s5), s5))))"
  by (simp only: updateCell_def cell_written_def Let_def)

lemma updateCell_present:
  assumes "rows_present s" and "Map_get (rowMap s) i = Some row"
  shows "updateCell h s i c v =
           (let s3 = cell_written h s i c v row;
                s' = refilter h (if cs_column (currentSort s) = Some c \<and> cs_direction (currentSort s) \<noteq> NoSort
                                 then resort h s3 c (cs_direction (currentSort s)) else s3)
            in Inr (Some (getCurrentState s'), s'))"
proof -
  let ?s3 = "cell_written h s i c v row"
  let ?d = "cs_direction (currentSort s)"
  let ?s4 = "if cs_column (currentSort s) = Some c \<and> ?d \<noteq> NoSort then resort h ?s3 c ?d else ?s3"
  have p3: "rows_present ?s3" using assms(1) by (rule rows_present_cell_written)
  have p4: "rows_present ?s4" using p3 by (simp add: rows_present_resort)
  have 1: "(if cs_column (currentSort ?s3) = Some c \<and> cs_direction (currentSort ?s3) \<noteq> NoSort
            then map_sum id snd (sortBy h ?s3 c (cs_direction (currentSort ?s3))) else Inr ?s3) = Inr ?s4"
    by (simp add: sortBy_present[OF p3])
  have 2: "applyCurrentFilters h ?s4 False = Inr (refilter h ?s4)"
    using p4 by (rule applyCurrentFilters_present)
  show ?thesis
    unfolding updateCell_unfold Let_def
    by (simp only: assms(2) option.case 1 2 sum.case)
qed

lemma addRow_unfold:
  "addRow h s row =
     (if Map_has (rowMap s) (String (get_prop row (idField s))) then Inr (None, s)
      else
        (case (case cs_column (currentSort (row_stored h s row)) of
                 Some column \<Rightarrow>
                   if column \<noteq> [] \<and> cs_direction (currentSort (row_stored h s row)) \<noteq> NoSort
                   then map_sum id snd (sortBy h (row_stored h s row) column
                          (cs_direction (currentSort (row_stored h s row))))
                   else Inr (row_stored h s row)
               | None \<Rightarrow> Inr (row_stored h s row)) of
           Inl e \<Rightarrow> Inl e
         | Inr s3 \<Rightarrow>
             (case applyCurrentFilters h s3 False of
                Inl e \<Rightarrow> Inl e
              | Inr s4 \<Rightarrow> Inr (Some (getCurrentState s4), s4))))"
  by (simp only: addRow_def row_stored_def Let_def)

lemma addRow_present:
  assumes "rows_present s" and "\<not> Map_has (rowMap s) (String (get_prop row (idField s)))"
  shows "addRow h s row =
           (let s2 = row_stored h s row;
                s' = refilter h (case cs_column (currentSort s) of
                                   Some column \<Rightarrow>
                                     if column \<noteq> [] \<and> cs_direction (currentSort s) \<noteq> NoSort
                                     then resort h s2 column (cs_direction (currentSort s))
                                     else s2
                                 | None \<Rightarrow> s2)
            in Inr (Some (getCurrentState s'), s'))"
proof -
  let ?s2 = "row_stored h s row"
  let ?d = "cs_direction (currentSort s)"
  let ?s3 = "case cs_column (currentSort s) of
               Some column \<Rightarrow> if column \<noteq> [] \<and> ?d \<noteq> NoSort then resort h ?s2 column ?d else ?s2
             | None \<Rightarrow> ?s2"
  have p2: "rows_present ?s2" using assms(1) by (rule rows_present_row_stored)
  have p3: "rows_present ?s3" using p2 by (simp add: rows_present_resort split: option.split)
  have 1: "(case cs_column (currentSort ?s2) of
              Some column \<Rightarrow>
                if column \<noteq> [] \<and> cs_direction (currentSort ?s2) \<noteq> NoSort
                then map_sum id snd (sortBy h ?s2 column (cs_direction (currentSort ?s2)))
                else Inr ?s2
            | None \<Rightarrow> Inr ?s2) = Inr ?s3"
    by (simp add: sortBy_present[OF p2] split: option.split)
  have 2: "applyCurrentFilters h ?s3 False = Inr (refilter h ?s3)"
    using p3 by (rule applyCurrentFilters_present)
  show ?thesis
    unfolding addRow_unfold Let_def
    by (simp only: assms(2) if_False 1 2 sum.case)
qed

lemma addRow_duplicate:
  "Map_has (rowMap s) (String (get_prop row (idField s))) \<Longrightarrow> addRow h s row = Inr (None, s)"
  by (simp add: addRow_def)

lemma addFilter_present:
  "rows_present s \<Longrightarrow>
   addFilter h s f =
     (let s' = refilter h (s\<lparr>activeFilters := filter (\<lambda>g. f_column g \<noteq> f_column f) (activeFilters s) @ [f]\<rparr>)
      in Inr (getCurrentState s', s'))"
  by (simp add: addFilter_def Let_def applyCurrentFilters_present rows_present_def)

lemma removeFilter_present:
  "rows_present s \<Longrightarrow>
   removeFilter h s c =
     (let s' = refilter h (s\<lparr>activeFilters := filter (\<lambda>g. f_column g \<noteq> c) (activeFilters s)\<rparr>)
      in Inr (getCurrentState s', s'))"
  by (simp add: removeFilter_def Let_def applyCurrentFilters_present rows_present_def)

lemma filterBySearch_present:
  "rows_present s \<Longrightarrow>
   filterBySearch h s q =
     (let s' = (if q = [] then refilter h s
                else s\<lparr>filteredIndex := filter (search_hit s q) (displayIndex s)\<rparr>)
      in Inr (getCurrentState s', s'))"
  by (simp add: filterBySearch_def Let_def applyCurrentFilters_present search_hit_def[abs_def])

section \<open>Index consistency\<close>

lemma consistent_refilter:
  "set (displayIndex s) = fst ` set (rowMap s) \<Longrightarrow> consistent (refilter h s)"
  by (simp add: consistent_def)

lemma consistent_resort:
  "set (displayIndex s) = fst ` set (rowMap s) \<Longrightarrow> consistent (resort h s c d)"
  by (simp add: consistent_def)

lemma keys_cell_written:
  "Map_get (rowMap s) i = Some row \<Longrightarrow>
   fst ` set (rowMap (cell_written h s i c v row)) = fst ` set (rowMap s)"
proof -
  assume "Map_get (rowMap s) i = Some row"
  then have "i \<in> fst ` set (rowMap s)"
    by (metis map_of_eq_None_iff option.distinct(1))
  then show ?thesis by (auto simp: dom_update)
qed

lemma step_consistent:
  assumes "consistent s"
  shows "\<exists>s'. step h s opn = Inr s' \<and> consistent s' \<and> idField s' = idField s
              \<and> (distinct (displayIndex s) \<longrightarrow> distinct (displayIndex s'))"
proof -
  have present: "rows_present s" using assms by (rule consistent_present)
  have keys: "set (displayIndex s) = fst ` set (rowMap s)"
    and sub: "set (filteredIndex s) \<subseteq> set (displayIndex s)"
    using assms by (auto simp add: consistent_def)
  show ?thesis
  proof (cases opn)
    case (SortBy c d)
    then show ?thesis
      using keys by (simp add: step_def sortBy_present[OF present] consistent_resort)
  next
    case (UpdateCell i c v)
    show ?thesis
    proof (cases "Map_get (rowMap s) i")
      case None
      then show ?thesis using UpdateCell assms by (simp add: step_def updateCell_def)
    next
      case (Some row)
      let ?s3 = "cell_written h s i c v row"
      have k3: "set (displayIndex ?s3) = fst ` set (rowMap ?s3)"
        using keys keys_cell_written[OF Some] by simp
      show ?thesis
        using UpdateCell k3
        by (simp add: step_def updateCell_present[OF present Some] Let_def consistent_def
            del: cell_written_frame(1))
    qed
  next
    case (AddRow row)
    let ?i = "String (get_prop row (idField s))"
    show ?thesis
    proof (cases "Map_has (rowMap s) ?i")
      case True
      then show ?thesis using AddRow assms by (simp add: step_def addRow_duplicate del: not_None_eq)
    next
      case False
      then have new: "?i \<notin> set (displayIndex s)"
        using keys by (simp add: map_of_eq_None_iff)
      let ?s2 = "row_stored h s row"
      have k2: "set (displayIndex ?s2) = fst ` set (rowMap ?s2)"
        using keys by (auto simp: dom_update)
      have d2: "distinct (displayIndex s) \<longrightarrow> distinct (displayIndex ?s2)"
        using new by simp
      show ?thesis
        using AddRow k2 d2
        by (simp add: step_def addRow_present[OF present False] Let_def consistent_def
            split: option.split del: row_stored_frame(1,2))
    qed
  next
    case (DeleteRow i)
    have "fst ` set (Map_delete (rowMap s) i) = fst ` set (rowMap s) - {i}"
      using delete_keys[of i "rowMap s"] by (metis set_map set_removeAll)
    then show ?thesis
      using DeleteRow assms keys sub
      by (auto simp: step_def deleteRow_def Let_def consistent_def)
  next
    case (FilterBySearch q)
    then show ?thesis
      using keys sub
      by (simp add: step_def filterBySearch_present[OF present] Let_def consistent_def)
  next
    case (AddFilter f)
    then show ?thesis
      using keys by (simp add: step_def addFilter_present[OF present] Let_def consistent_def)
  next
    case (RemoveFilter c)
    then show ?thesis
      using keys by (simp add: step_def removeFilter_present[OF present] Let_def consistent_def)
  next
    case ClearFilters
    then show ?thesis
      using keys by (simp add: step_def clearFilters_def Let_def consistent_def)
  qed
qed

lemma run_consistent:
  "consistent s \<Longrightarrow>
   \<exists>s'. run h s ops = Inr s' \<and> consistent s' \<and> idField s' = idField s
        \<and> (distinct (displayIndex s) \<longrightarrow> distinct (displayIndex s'))"
proof (induction ops arbitrary: s)
  case Nil
  then show ?case by simp
next
  case (Cons opn ops)
  from step_consistent[OF Cons.prems, of h opn]
  obtain s1 where s1: "step h s opn = Inr s1" "consistent s1" "idField s1 = idField s"
    "distinct (displayIndex s) \<longrightarrow> distinct (displayIndex s1)" by blast
  from Cons.IH[OF s1(2)]
  obtain s2 where s2: "run h s1 ops = Inr s2" "consistent s2" "idField s2 = idField s1"
    "distinct (displayIndex s1) \<longrightarrow> distinct (displayIndex s2)" by blast
  show ?case using s1 s2 by simp
qed

lemma init_row_eq: "init_row h s row = row_stored h s row"
  by (simp add: init_row_def row_stored_def)

lemma foldl_init_row:
  "idField (foldl (init_row h) s rows) = idField s \<and>
   displayIndex (foldl (init_row h) s rows)
     = displayIndex s @ map (\<lambda>row. String (get_prop row (idField s))) rows \<and>
   fst ` set (rowMap (foldl (init_row h) s rows))
     = fst ` set (rowMap s) \<union> set (map (\<lambda>row. String (get_prop row (idField s))) rows)"
proof (induction rows arbitrary: s)
  case Nil
  show ?case by simp
next
  case (Cons row rows)
  have "foldl (init_row h) s (row # rows) = foldl (init_row h) (row_stored h s row) rows"
    by (simp add: init_row_eq)
  then show ?case
    using Cons.IH[of "row_stored h s row"] by (auto simp: dom_update)
qed

lemma new_GridDataManager_consistent: "consistent (new_GridDataManager h rows idf)"
  using foldl_init_row[of h "empty_manager idf" rows]
  by (simp add: new_GridDataManager_def Let_def consistent_def empty_manager_def)

lemma displayIndex_new_GridDataManager:
  "displayIndex (new_GridDataManager h rows idf) = map (\<lambda>row. String (get_prop row idf)) rows"
  using foldl_init_row[of h "empty_manager idf" rows]
  by (simp add: new_GridDataManager_def Let_def empty_manager_def)

section \<open>Rejected insertions\<close>

text \<open>
  C4. When the identifier of the record is already a key of the Row Store,
  \<^verbatim>\<open>addRow\<close> returns \<^verbatim>\<open>null\<close> and the manager is exactly as it was before the call:
  no field of it has changed.
\<close>

theorem addRow_existing_id_rejected:
  "Map_has (rowMap s) (String (get_prop row (idField s))) \<Longrightarrow> addRow h s row = Inr (None, s)"
  by (simp add: addRow_def)

theorem addRow_existing_id_rejected_witness:
  "Map_has (rowMap scenario)
     (String (get_prop [''id'' \<mapsto> JStr ''1'', ''amount'' \<mapsto> JNum (Num 1)] (idField scenario)))
   \<and> addRow example_host scenario [''id'' \<mapsto> JStr ''1'', ''amount'' \<mapsto> JNum (Num 1)]
       = Inr (None, scenario)"
proof -
  have 1: "Map_has (rowMap scenario)
     (String (get_prop [''id'' \<mapsto> JStr ''1'', ''amount'' \<mapsto> JNum (Num 1)] (idField scenario)))"
    by code_simp
  from 1 addRow_existing_id_rejected[OF 1] show ?thesis by (rule conjI)
qed

section \<open>Editing a cell\<close>

text \<open>
  C10. For an identifier that has a record, \<^verbatim>\<open>updateCell\<close> returns a snapshot and leaves
  the keys of the Row Store as they were, in number and in order, whatever the column
  (the identifier field included); the record read back under the same identifier is the
  old record with the column set to the new value.
\<close>

theorem updateCell_keeps_keys:
  assumes "rows_present s" and "Map_has (rowMap s) i"
  shows "\<exists>snap s'. updateCell h s i c v = Inr (Some snap, s')
           \<and> map fst (rowMap s') = map fst (rowMap s)
           \<and> Map_get (rowMap s') i = Some ((row_at s i)(c \<mapsto> v))
           \<and> get_prop (row_at s' i) c = v"
proof -
  from assms(2) obtain row where row: "Map_get (rowMap s) i = Some row" by blast
  let ?s3 = "cell_written h s i c v row"
  let ?s' = "refilter h (if cs_column (currentSort s) = Some c \<and> cs_direction (currentSort s) \<noteq> NoSort
                         then resort h ?s3 c (cs_direction (currentSort s)) else ?s3)"
  have ret: "updateCell h s i c v = Inr (Some (getCurrentState ?s'), ?s')"
    using updateCell_present[OF assms(1) row, of h c v] by (simp only: Let_def)
  have rm: "rowMap ?s' = Map_set (rowMap s) i (row(c \<mapsto> v))"
    by simp
  have "i \<in> fst ` set (rowMap s)"
    using assms(2) by (simp add: map_of_eq_None_iff del: not_None_eq)
  then have keys: "map fst (rowMap ?s') = map fst (rowMap s)"
    unfolding rm by (simp add: update_keys)
  have get: "Map_get (rowMap ?s') i = Some ((row_at s i)(c \<mapsto> v))"
    unfolding rm using row by (simp add: update_conv')
  then have "get_prop (row_at ?s' i) c = v"
    by (simp add: row_at_def get_prop_def)
  with ret keys get show ?thesis by blast
qed

theorem updateCell_keeps_keys_witness:
  "rows_present scenario \<and> Map_has (rowMap scenario) ''2''
   \<and> (\<exists>snap s'. updateCell example_host scenario ''2'' ''id'' (JStr ''9'') = Inr (Some snap, s')
         \<and> map fst (rowMap s') = map fst (rowMap scenario)
         \<and> Map_get (rowMap s') ''2'' = Some ((row_at scenario ''2'')(''id'' \<mapsto> JStr ''9''))
         \<and> get_prop (row_at s' ''2'') ''id'' = JStr ''9'')"
proof -
  have 1: "rows_present scenario" by code_simp
  have 2: "Map_has (rowMap scenario) ''2''" by code_simp
  from 1 2 updateCell_keeps_keys[OF 1 2, of example_host "''id''" "JStr ''9''"]
  show ?thesis by blast
qed

section \<open>Sorting by cached values\<close>

text \<open>
  C8. On a column that has a map of cached values, the comparator of \<^verbatim>\<open>sortBy\<close> for
  direction ascending or descending is the difference of the cached numbers of the two
  rows, a missing entry counting as 0, and it reads no record. When the cached values of
  the displayed rows are finite, the new Display Index is the old one stably sorted by
  that key (by its negation for descending).
\<close>

theorem sortBy_cached_values:
  assumes "Map_get (sortValues s) c = Some m" and "d \<noteq> NoSort"
  shows "(\<forall>a b. compare_column h s c d a b =
            Inr (if d = Asc then js_sub (cached_key m a) (cached_key m b)
                 else js_sub (cached_key m b) (cached_key m a)))
       \<and> (rows_present s \<and> list_all (\<lambda>i. finite_num (cached_key m i)) (displayIndex s) \<longrightarrow>
            (\<exists>snap s'. sortBy h s c d = Inr (snap, s')
               \<and> displayIndex s' =
                   sort_key (\<lambda>i. if d = Asc then int_of (cached_key m i) else - int_of (cached_key m i))
                     (displayIndex s)))"
proof (intro conjI allI impI)
  fix a b
  show "compare_column h s c d a b =
          Inr (if d = Asc then js_sub (cached_key m a) (cached_key m b)
               else js_sub (cached_key m b) (cached_key m a))"
    using assms(1) by (simp add: compare_column_def cached_key_def Let_def)
next
  assume hyp: "rows_present s \<and> list_all (\<lambda>i. finite_num (cached_key m i)) (displayIndex s)"
  let ?f = "\<lambda>i. if d = Asc then int_of (cached_key m i) else - int_of (cached_key m i)"
  have gt: "\<forall>a\<in>set (displayIndex s). \<forall>b\<in>set (displayIndex s). sort_gt h s c d a b = (?f b < ?f a)"
  proof (intro ballI)
    fix a b assume "a \<in> set (displayIndex s)" "b \<in> set (displayIndex s)"
    then have "finite_num (cached_key m a)" "finite_num (cached_key m b)"
      using hyp by (simp_all add: list_all_iff)
    then obtain x y where "cached_key m a = Num x" "cached_key m b = Num y"
      by (auto simp: finite_num_def split: jsnum.splits)
    then show "sort_gt h s c d a b = (?f b < ?f a)"
      using assms
      by (simp add: sort_gt_def sort_cmp_def js_sub_def positive_def int_of_def)
  qed
  have "displayIndex (resort h s c d) = sort_key ?f (displayIndex s)"
    using stable_sort_key[OF gt] by simp
  moreover have "rows_present s" using hyp by simp
  ultimately show "\<exists>snap s'. sortBy h s c d = Inr (snap, s') \<and> displayIndex s' = sort_key ?f (displayIndex s)"
    using sortBy_present[of s h c d] by blast
qed

theorem sortBy_cached_values_witness:
  "Map_get (sortValues sparse) ''amount'' = Some [(''1'', Num 10), (''3'', Num (- 5))]
   \<and> Asc \<noteq> NoSort
   \<and> rows_present sparse
   \<and> list_all (\<lambda>i. finite_num (cached_key [(''1'', Num 10), (''3'', Num (- 5))] i)) (displayIndex sparse)
   \<and> compare_column example_host sparse ''amount'' Asc ''2'' ''3'' = Inr (Num 5)
   \<and> (\<exists>snap s'. sortBy example_host sparse ''amount'' Asc = Inr (snap, s')
         \<and> displayIndex s' = [''3'', ''2'', ''1''])"
proof -
  let ?m = "[(''1'', Num 10), (''3'', Num (- 5))]"
  have 1: "Map_get (sortValues sparse) ''amount'' = Some ?m"
    by code_simp
  have 2: "Asc \<noteq> NoSort" by simp
  have 3: "rows_present sparse" by code_simp
  have 4: "list_all (\<lambda>i. finite_num (cached_key ?m i)) (displayIndex sparse)"
    by code_simp
  have 5: "sort_key (\<lambda>i. if Asc = Asc then int_of (cached_key ?m i) else - int_of (cached_key ?m i))
             (displayIndex sparse) = [''3'', ''2'', ''1'']"
    by code_simp
  have 6: "(if Asc = Asc then js_sub (cached_key ?m ''2'') (cached_key ?m ''3'')
            else js_sub (cached_key ?m ''3'') (cached_key ?m ''2'')) = Num 5"
    by code_simp
  note inst = sortBy_cached_values[OF 1 2, of example_host]
  from inst have "compare_column example_host sparse ''amount'' Asc ''2'' ''3'' =
      Inr (if Asc = Asc then js_sub (cached_key ?m ''2'') (cached_key ?m ''3'')
           else js_sub (cached_key ?m ''3'') (cached_key ?m ''2''))"
    by blast
  then have a: "compare_column example_host sparse ''amount'' Asc ''2'' ''3'' = Inr (Num 5)"
    unfolding 6 .
  from inst 3 4 have b: "\<exists>snap s'. sortBy example_host sparse ''amount'' Asc = Inr (snap, s')
         \<and> displayIndex s' = [''3'', ''2'', ''1'']"
    unfolding 5 by blast
  from 1 2 3 4 a b show ?thesis by blast
qed

section \<open>The collation of the example host\<close>

lemma str_less_irrefl: "\<not> str_less a a"
  by (induction a) auto

lemma str_less_trans: "str_less a b \<Longrightarrow> str_less b c \<Longrightarrow> str_less a c"
proof (induction a b arbitrary: c rule: str_less.induct)
  case (2 y ys)
  then show ?case by (cases c) auto
next
  case (4 x xs y ys)
  then show ?case by (cases c) auto
qed auto

lemma str_less_total: "a \<noteq> b \<Longrightarrow> \<not> str_less a b \<Longrightarrow> str_less b a"
proof (induction a b rule: str_less.induct)
  case (4 x xs y ys)
  then show ?case by (auto simp: not_less le_less)
qed auto

lemma collation_ok_example_host: "collation_ok example_host"
proof -
  have le: "\<And>a b. (localeCompare example_host a b \<le> 0) = (str_less a b \<or> a = b)"
    by (simp add: example_host_def)
  show ?thesis
    unfolding collation_ok_def le
    using str_less_trans str_less_total by blast
qed

section \<open>Sorting by identifier\<close>

lemma id_string_frame:
  "rowMap s' = rowMap s \<Longrightarrow> idField s' = idField s \<Longrightarrow> id_string s' = id_string s"
  by (intro ext) (simp add: id_string_def row_at_frame[of s' s])

text \<open>
  C5. \<^verbatim>\<open>sortBy(column, 'none')\<close> returns with the Display Index rearranged into ascending
  order of the stringified identifier-field values of the records, in the collation of
  \<^verbatim>\<open>localeCompare\<close>, whatever the order before the call and whatever the column.
\<close>

theorem sortBy_none_identifier_order:
  assumes "rows_present s" and "collation_ok h"
  shows "\<exists>snap s'. sortBy h s c NoSort = Inr (snap, s')
           \<and> sorted_wrt (\<lambda>a b. localeCompare h (id_string s' a) (id_string s' b) \<le> 0) (displayIndex s')
           \<and> mset (displayIndex s') = mset (displayIndex s)"
proof -
  let ?s' = "resort h s c NoSort"
  let ?lc = "\<lambda>a b. localeCompare h (id_string s a) (id_string s b)"
  have total: "\<And>a b. ?lc a b \<le> 0 \<or> ?lc b a \<le> 0"
    and trans: "\<And>a b c. ?lc a b \<le> 0 \<Longrightarrow> ?lc b c \<le> 0 \<Longrightarrow> ?lc a c \<le> 0"
    using assms(2) unfolding collation_ok_def by blast+
  have gt: "\<And>a b. sort_gt h s c NoSort a b = (\<not> ?lc a b \<le> 0)"
    by (simp add: sort_gt_def sort_cmp_def positive_def not_le)
  have "sorted_wrt (\<lambda>a b. \<not> sort_gt h s c NoSort a b)
          (stable_sort (sort_gt h s c NoSort) (displayIndex s))"
  proof (rule sorted_wrt_stable_sort)
    fix a b assume "sort_gt h s c NoSort a b"
    then show "\<not> sort_gt h s c NoSort b a" using total[of a b] by (simp add: gt)
  next
    fix a b c' assume "\<not> sort_gt h s c NoSort a b" "\<not> sort_gt h s c NoSort b c'"
    then show "\<not> sort_gt h s c NoSort a c'" using trans[of a b c'] by (simp add: gt)
  qed
  then have "sorted_wrt (\<lambda>a b. ?lc a b \<le> 0) (displayIndex ?s')"
    by (simp add: gt)
  moreover have "id_string ?s' = id_string s"
    by (rule id_string_frame) simp_all
  ultimately have
    "sorted_wrt (\<lambda>a b. localeCompare h (id_string ?s' a) (id_string ?s' b) \<le> 0) (displayIndex ?s')"
    by simp
  moreover have "mset (displayIndex ?s') = mset (displayIndex s)" by simp
  ultimately show ?thesis
    using sortBy_present[OF assms(1), of h c NoSort] by blast
qed

theorem sortBy_none_identifier_order_witness:
  "rows_present (after example_host scenario [SortBy ''amount'' Asc])
   \<and> collation_ok example_host
   \<and> displayIndex (after example_host scenario [SortBy ''amount'' Asc]) = [''2'', ''1'', ''3'']
   \<and> (\<exists>snap s'. sortBy example_host (after example_host scenario [SortBy ''amount'' Asc]) ''amount'' NoSort
                    = Inr (snap, s')
         \<and> sorted_wrt (\<lambda>a b. localeCompare example_host (id_string s' a) (id_string s' b) \<le> 0)
              (displayIndex s')
         \<and> mset (displayIndex s') = mset (displayIndex (after example_host scenario [SortBy ''amount'' Asc])))"
proof -
  have 1: "rows_present (after example_host scenario [SortBy ''amount'' Asc])" by code_simp
  have 2: "collation_ok example_host" by (rule collation_ok_example_host)
  have 3: "displayIndex (after example_host scenario [SortBy ''amount'' Asc]) = [''2'', ''1'', ''3'']"
    by code_simp
  from sortBy_none_identifier_order[OF 1 2, of "''amount''"] 1 2 3
  show ?thesis by blast
qed

section \<open>Ties in a sort\<close>

text \<open>
  C6, as stated, fails. Identifiers 1 and 2 are inserted in this order and have the same
  cached price; after a sort by amount puts 2 first, the sort by price leaves 2 before 1,
  which is not the insertion order.
\<close>

theorem sortBy_ties_not_insertion_order:
  "displayIndex tied = [''1'', ''2'']
   \<and> cache_entry tied ''price'' ''1'' = cache_entry tied ''price'' ''2''
   \<and> map_sum id displayIndex
        (run example_host tied [SortBy ''amount'' Asc, SortBy ''price'' Asc]) = Inr [''2'', ''1'']"
  by code_simp

text \<open>
  C6, amended. When the comparator of \<^verbatim>\<open>sortBy\<close> for an ascending or descending sort
  orders the displayed rows by a comparison key, the rows with equal keys keep, in the new
  Display Index, the relative order they had in the Display Index before the call.
\<close>

theorem sortBy_stable_on_display_order:
  fixes key :: "RowId \<Rightarrow> 'k::linorder"
  assumes "rows_present s"
    and "d \<noteq> NoSort"
    and "\<forall>a\<in>set (displayIndex s). \<forall>b\<in>set (displayIndex s). sort_gt h s c d a b = (key b < key a)"
  shows "\<exists>snap s'. sortBy h s c d = Inr (snap, s')
           \<and> (\<forall>k. filter (\<lambda>i. key i = k) (displayIndex s') = filter (\<lambda>i. key i = k) (displayIndex s))"
proof -
  have "displayIndex (resort h s c d) = sort_key key (displayIndex s)"
    using stable_sort_key[OF assms(3)] by simp
  then have "\<forall>k. filter (\<lambda>i. key i = k) (displayIndex (resort h s c d))
                 = filter (\<lambda>i. key i = k) (displayIndex s)"
    by (simp add: sort_key_stable)
  then show ?thesis
    using sortBy_present[OF assms(1), of h c d] by blast
qed

theorem sortBy_stable_on_display_order_witness:
  "rows_present (after example_host tied [SortBy ''amount'' Asc])
   \<and> Asc \<noteq> NoSort
   \<and> list_all (\<lambda>a. list_all (\<lambda>b.
          sort_gt example_host (after example_host tied [SortBy ''amount'' Asc]) ''price'' Asc a b
            = (int_of (cached_key [(''1'', Num 1), (''2'', Num 1)] b)
                 < int_of (cached_key [(''1'', Num 1), (''2'', Num 1)] a)))
            (displayIndex (after example_host tied [SortBy ''amount'' Asc])))
        (displayIndex (after example_host tied [SortBy ''amount'' Asc]))
   \<and> displayIndex (after example_host tied [SortBy ''amount'' Asc]) = [''2'', ''1'']
   \<and> (\<exists>snap s'. sortBy example_host (after example_host tied [SortBy ''amount'' Asc]) ''price'' Asc
                    = Inr (snap, s')
         \<and> (\<forall>k. filter (\<lambda>i. int_of (cached_key [(''1'', Num 1), (''2'', Num 1)] i) = k) (displayIndex s')
                = filter (\<lambda>i. int_of (cached_key [(''1'', Num 1), (''2'', Num 1)] i) = k)
                    (displayIndex (after example_host tied [SortBy ''amount'' Asc]))))"
proof -
  let ?s = "after example_host tied [SortBy ''amount'' Asc]"
  let ?key = "\<lambda>i. int_of (cached_key [(''1'', Num 1), (''2'', Num 1)] i)"
  have 1: "rows_present ?s" by code_simp
  have 2: "Asc \<noteq> NoSort" by simp
  have 3: "\<forall>a\<in>set (displayIndex ?s). \<forall>b\<in>set (displayIndex ?s).
             sort_gt example_host ?s ''price'' Asc a b = (?key b < ?key a)"
    by code_simp
  have 4: "displayIndex ?s = [''2'', ''1'']" by code_simp
  have 5: "list_all (\<lambda>a. list_all (\<lambda>b.
             sort_gt example_host ?s ''price'' Asc a b = (?key b < ?key a)) (displayIndex ?s))
           (displayIndex ?s)"
    using 3 by (simp add: list_all_iff)
  from sortBy_stable_on_display_order[OF 1 2 3] 1 2 4 5
  show ?thesis by blast
qed

section \<open>Page bounds\<close>
















section \<open>Where the code departs from the specification\<close>

text \<open>
  C1 fails on the code. The search query in force is \<open>ali\<close>; after the filter on the
  amount is added (and likewise after a sort), the Filtered Index holds identifier 3,
  whose search key does not contain the query: \<^verbatim>\<open>applyCurrentFilters\<close> starts again from the
  whole Display Index and applies the column filters only.
\<close>

theorem search_dropped_by_later_operations:
  "active_query [] [FilterBySearch ''ali'', AddFilter amount_above_6] = ''ali''
   \<and> map_sum id (\<lambda>s. (filteredIndex s, spec_filteredIndex example_host s ''ali''))
         (run example_host named [FilterBySearch ''ali'', AddFilter amount_above_6])
       = Inr ([''1'', ''3''], [''1''])
   \<and> active_query [] [FilterBySearch ''ali'', SortBy ''name'' Desc] = ''ali''
   \<and> map_sum id (\<lambda>s. (filteredIndex s, spec_filteredIndex example_host s ''ali''))
         (run example_host named [FilterBySearch ''ali'', SortBy ''name'' Desc])
       = Inr ([''3'', ''2'', ''1''], [''2'', ''1''])"
  by code_simp

text \<open>
  C2 fails on the code. With the filter on the amount active, the search for \<open>ali\<close>
  leaves identifier 2 in the Filtered Index, whose amount 5 does not pass the filter:
  \<^verbatim>\<open>filterBySearch\<close> with a query that is not empty filters by the search key alone.
\<close>

theorem filterBySearch_ignores_column_filters:
  "map f_column (activeFilters (after example_host named [AddFilter amount_above_6])) = [''amount'']
   \<and> passes_all example_host (after example_host named [AddFilter amount_above_6]) ''2'' = False
   \<and> map_sum id (\<lambda>(snap, s). (filteredIndex s, spec_filteredIndex example_host s ''ali''))
         (filterBySearch example_host (after example_host named [AddFilter amount_above_6]) ''ali'')
       = Inr ([''1'', ''2''], [''1''])"
  by code_simp

text \<open>
  C3 fails on the code. A construction input in which two records have the same
  identifier, or in which two records have none, leaves that identifier twice in the
  Display Index and once in the Row Store: the constructor has no test like the one of
  \<^verbatim>\<open>addRow\<close>.
\<close>

theorem constructor_keeps_duplicate_ids:
  "displayIndex (new_GridDataManager example_host repeated_id_rows ''id'') = [''1'', ''1'']
   \<and> map fst (rowMap (new_GridDataManager example_host repeated_id_rows ''id'')) = [''1'']
   \<and> \<not> distinct (displayIndex (new_GridDataManager example_host repeated_id_rows ''id''))
   \<and> displayIndex (new_GridDataManager example_host absent_id_rows ''id'') = [''undefined'', ''undefined'']
   \<and> map fst (rowMap (new_GridDataManager example_host absent_id_rows ''id'')) = [''undefined'']"
  by code_simp

text \<open>
  C7 fails on the code for a date column. The cached key of identifier 1 for the column
  \<open>date\<close> is the time value of 15 January 2024; \<^verbatim>\<open>updateCell\<close> with a string that
  \<^verbatim>\<open>Date.parse\<close> does not read returns a snapshot and overwrites the cached key with
  \<^verbatim>\<open>NaN\<close>: the date branch stores the time value without the \<^verbatim>\<open>isNaN\<close> test of the
  numeric branch.
\<close>

theorem updateCell_unparsable_date_overwrites_key:
  "cache_entry dated ''date'' ''1'' = Some (Num 1705276800000)
   \<and> Date_getTime example_host (JStr ''not a date'') = NaN
   \<and> map_sum id (\<lambda>(r, s'). (returned_snapshot r, cache_entry s' ''date'' ''1''))
         (updateCell example_host dated ''1'' ''date'' (JStr ''not a date''))
       = Inr (True, Some NaN)"
  by code_simp

section \<open>What holds of the indices and the caches in general\<close>

text \<open>
  The part of index consistency that holds for every construction input and every
  sequence of public calls: no call throws, the Filtered Index stays within the Display
  Index, the Display Index holds exactly the keys of the Row Store, and it has no
  duplicate when the stringified identifiers of the construction input are distinct.
\<close>

lemma reachable_consistent:
  "\<exists>s. run h (new_GridDataManager h rows idf) ops = Inr s
       \<and> set (filteredIndex s) \<subseteq> set (displayIndex s)
       \<and> set (displayIndex s) = fst ` set (rowMap s)
       \<and> (distinct (map (\<lambda>row. String (get_prop row idf)) rows) \<longrightarrow> distinct (displayIndex s))"
proof -
  let ?s0 = "new_GridDataManager h rows idf"
  have "\<exists>s. run h ?s0 ops = Inr s \<and> consistent s \<and> idField s = idField ?s0
          \<and> (distinct (displayIndex ?s0) \<longrightarrow> distinct (displayIndex s))"
    by (rule run_consistent[OF new_GridDataManager_consistent])
  then obtain s where s: "run h ?s0 ops = Inr s" "consistent s"
    "distinct (displayIndex ?s0) \<longrightarrow> distinct (displayIndex s)" by blast
  then show ?thesis
    by (auto simp: consistent_def displayIndex_new_GridDataManager)
qed

lemma reachable_rows_present:
  "run h (new_GridDataManager h rows idf) ops = Inr s \<Longrightarrow> rows_present s"
proof -
  assume r: "run h (new_GridDataManager h rows idf) ops = Inr s"
  have "\<exists>s'. run h (new_GridDataManager h rows idf) ops = Inr s' \<and> consistent s'
          \<and> idField s' = idField (new_GridDataManager h rows idf)
          \<and> (distinct (displayIndex (new_GridDataManager h rows idf)) \<longrightarrow> distinct (displayIndex s'))"
    by (rule run_consistent[OF new_GridDataManager_consistent])
  with r have "consistent s" by auto
  then show ?thesis by (rule consistent_present)
qed

text \<open>
  After a sort, a filter change, an edit or an insertion the Filtered Index is the
  subsequence of the Display Index whose records pass every active column filter; the
  search query plays no part.
\<close>

lemma passes_all_refilter [simp]: "passes_all h (refilter h' s) = passes_all h s"
  by (rule passes_all_frame) simp_all

lemma passes_all_resort [simp]: "passes_all h (resort h' s c d) = passes_all h s"
  by (rule passes_all_frame) simp_all

lemma spec_filteredIndex_no_query:
  "spec_filteredIndex h s [] = filter (passes_all h s) (displayIndex s)"
  by (simp add: spec_filteredIndex_def)

lemma filteredIndex_recomputed_from_filters:
  assumes "rows_present s"
    and "case opn of SortBy c d \<Rightarrow> True | AddFilter f \<Rightarrow> True | RemoveFilter c \<Rightarrow> True
         | UpdateCell i c v \<Rightarrow> Map_has (rowMap s) i
         | AddRow row \<Rightarrow> \<not> Map_has (rowMap s) (String (get_prop row (idField s)))
         | _ \<Rightarrow> False"
  shows "\<exists>s'. step h s opn = Inr s' \<and> filteredIndex s' = spec_filteredIndex h s' []"
proof (cases opn)
  case (SortBy c d)
  then show ?thesis
    by (simp add: step_def sortBy_present[OF assms(1)] spec_filteredIndex_no_query)
next
  case (UpdateCell i c v)
  with assms(2) obtain row where row: "Map_get (rowMap s) i = Some row" by auto
  show ?thesis
    using UpdateCell
    by (simp add: step_def updateCell_present[OF assms(1) row] Let_def spec_filteredIndex_no_query
        del: cell_written_frame)
next
  case (AddRow row)
  with assms(2) have new: "\<not> Map_has (rowMap s) (String (get_prop row (idField s)))" by simp
  show ?thesis
    using AddRow
    by (simp add: step_def addRow_present[OF assms(1) new] Let_def spec_filteredIndex_no_query
        del: row_stored_frame)
next
  case (AddFilter f)
  then show ?thesis
    by (simp add: step_def addFilter_present[OF assms(1)] Let_def spec_filteredIndex_no_query)
next
  case (RemoveFilter c)
  then show ?thesis
    by (simp add: step_def removeFilter_present[OF assms(1)] Let_def spec_filteredIndex_no_query)
qed (use assms(2) in simp_all)

text \<open>
  A search with a query that is not empty filters the whole Display Index by the search
  key: an earlier search has no effect on the result.
\<close>

lemma filterBySearch_from_display_index:
  "query \<noteq> [] \<Longrightarrow>
   \<exists>snap s'. filterBySearch h s query = Inr (snap, s')
      \<and> filteredIndex s' = filter (search_hit s query) (displayIndex s)
      \<and> displayIndex s' = displayIndex s"
  by (simp add: filterBySearch_def Let_def search_hit_def[abs_def])

text \<open>
  On a numeric column, a value that does not convert to a number leaves the cached key of
  the row as it was, and the call returns a snapshot.
\<close>

lemma sortValues_refresh_frame:
  "sortValues s2 = sortValues s \<Longrightarrow>
   sortValues (refresh_sort_value h s2 i c v) = sortValues (refresh_sort_value h s i c v)"
  by (cases "Map_get (sortValues s) c") (simp_all add: refresh_sort_value_def Let_def)

lemma sortValues_cell_written:
  "sortValues (cell_written h s i c v row) = sortValues (refresh_sort_value h s i c v)"
  unfolding cell_written_def Let_def by (rule sortValues_refresh_frame) simp

lemma updateCell_unparsable_number_keeps_key:
  assumes "rows_present s" and "Map_has (rowMap s) i"
    and "c \<in> set NUMERIC_COLUMNS" and "Number h v = NaN"
  shows "\<exists>snap s'. updateCell h s i c v = Inr (Some snap, s') \<and> cache_entry s' c i = cache_entry s c i"
proof -
  from assms(2) obtain row where row: "Map_get (rowMap s) i = Some row" by blast
  have nodate: "c \<notin> set DATE_COLUMNS"
    using assms(3) by (auto simp: NUMERIC_COLUMNS_def DATE_COLUMNS_def)
  have "refresh_sort_value h s i c v = s"
    using assms(4) nodate by (simp add: refresh_sort_value_def isNaN_def split: option.split)
  then have sv: "sortValues (cell_written h s i c v row) = sortValues s"
    by (simp add: sortValues_cell_written)
  show ?thesis
    using updateCell_present[OF assms(1) row, of h c v] sv
    by (simp add: Let_def cache_entry_def del: cell_written_frame)
qed

text \<open>With no filtered row, \<^verbatim>\<open>goToPage\<close> yields page 0 and \<^verbatim>\<open>nextPage\<close> page \<open>- 1\<close>.\<close>

lemma goToPage_empty_view:
  "0 < pageSize p \<Longrightarrow> page \<noteq> NaN \<Longrightarrow> currentPage (goToPage 0 p page) = Num 0"
  by (cases page)
     (simp_all add: goToPage_def maxPage_def ceil_div_def js_sub_def Math_max_def Math_min_def
        num_less_def)

lemma nextPage_empty_view:
  "0 < pageSize p \<Longrightarrow> currentPage p = Num 0 \<Longrightarrow> currentPage (nextPage 0 p) = Num (- 1)"
  by (simp add: nextPage_def maxPage_def ceil_div_def js_sub_def js_add_def Math_min_def num_less_def)

end
